theory Spec2Isabelle
  imports Complex_Main "HOL-Library.Sublist" "HOL-Library.Multiset"
    "HOL-Library.Product_Lexorder"
begin

section \<open>Python values\<close>

text \<open>
  The tools of \<^verbatim>\<open>my_tools.py\<close> work on two module-level variables, the list
  \<^verbatim>\<open>COLLECTED_PAPERS\<close> and the dict \<^verbatim>\<open>CRITIC_EVALUATIONS\<close>, and on values decoded
  from JSON.

  A Python string is the list of its code points. \<open>u\<close> turns an ASCII literal
  into such a list.
\<close>

type_synonym ustr = "nat list"

definition u :: "string \<Rightarrow> ustr" where
  "u s = map of_char s"

text \<open>
  A Python float: a finite value, written as the real number it is, the negative
  zero, the two infinities, and NaN. \<open>fcode\<close> places every float but NaN on one
  line; the comparisons \<^verbatim>\<open><\<close>, \<^verbatim>\<open>==\<close> and \<^verbatim>\<open>>=\<close> are read off it, and each of
  them is false when an operand is NaN.
\<close>

datatype pyfloat = Fin real | NegZero | PInf | NInf | NaN

fun fcode :: "pyfloat \<Rightarrow> (int \<times> real) option" where
  "fcode (Fin r) = Some (0, r)"
| "fcode NegZero = Some (0, 0)"
| "fcode PInf = Some (1, 0)"
| "fcode NInf = Some (- 1, 0)"
| "fcode NaN = None"

definition flt :: "pyfloat \<Rightarrow> pyfloat \<Rightarrow> bool" where
  "flt a b = (case (fcode a, fcode b) of (Some x, Some y) \<Rightarrow> x < y | _ \<Rightarrow> False)"

definition feq :: "pyfloat \<Rightarrow> pyfloat \<Rightarrow> bool" where
  "feq a b = (case (fcode a, fcode b) of (Some x, Some y) \<Rightarrow> x = y | _ \<Rightarrow> False)"

definition fge :: "pyfloat \<Rightarrow> pyfloat \<Rightarrow> bool" where
  "fge a b = (case (fcode a, fcode b) of (Some x, Some y) \<Rightarrow> x \<ge> y | _ \<Rightarrow> False)"

text \<open>
  The float literals \<^verbatim>\<open>0.4\<close> and \<^verbatim>\<open>0.3\<close> are the doubles nearest to these
  decimals. The other literals of the tools, \<^verbatim>\<open>3.0\<close>, \<^verbatim>\<open>3.5\<close>, \<^verbatim>\<open>4.0\<close> and
  \<^verbatim>\<open>4.5\<close>, are doubles themselves.
\<close>

definition float_0_4 :: pyfloat where
  "float_0_4 = Fin (3602879701896397 / 9007199254740992)"

definition float_0_3 :: pyfloat where
  "float_0_3 = Fin (5404319552844595 / 18014398509481984)"

text \<open>
  A decoded JSON value is one of Python's \<^verbatim>\<open>None\<close>, \<^verbatim>\<open>bool\<close>, \<^verbatim>\<open>int\<close>,
  \<^verbatim>\<open>float\<close>, \<^verbatim>\<open>str\<close>, \<^verbatim>\<open>list\<close> and \<^verbatim>\<open>dict\<close>; \<^verbatim>\<open>json.loads\<close> accepts
  \<^verbatim>\<open>NaN\<close> and \<^verbatim>\<open>Infinity\<close>, and an int has no bound. A dict is an association list
  read with \<open>map_of\<close>.
\<close>

datatype json =
    JNull
  | JBool bool
  | JInt int
  | JFloat pyfloat
  | JStr ustr
  | JArr "json list"
  | JObj "(ustr \<times> json) list"

datatype py_error = AttributeError | TypeError | ValueError | OverflowError | LayoutError

text \<open>
  What \<^verbatim>\<open>story\<close> holds in the PDF tool: a paragraph with its text and the name of
  its style, a spacer with its height in cm, a page break, and a group kept
  together.
\<close>

datatype flowable =
    Paragraph ustr ustr
  | Spacer real
  | PageBreak
  | KeepTogether "flowable list"

section \<open>The library\<close>

text \<open>
  What the tools call and this development does not define is a parameter:
  \<^item> \<open>fmul\<close> and \<open>fadd\<close>: the product and the sum of two floats, rounded as the
    machine rounds them;
  \<^item> \<open>float_of_int\<close>: the float of an int, \<open>None\<close> when the int is beyond the
    floats, where Python raises \<^verbatim>\<open>OverflowError\<close>;
  \<^item> \<open>str_lower\<close>: \<^verbatim>\<open>str.lower\<close>, and \<open>isalnum\<close>: \<^verbatim>\<open>str.isalnum\<close> of one
    character, both by the tables of Unicode;
  \<^item> \<open>fmt_1f\<close> and \<open>fmt_2f\<close>: \<^verbatim>\<open>format(x, '.1f')\<close> and \<^verbatim>\<open>format(x, '.2f')\<close> of
    a float; \<open>py_str\<close>: \<^verbatim>\<open>str(x)\<close> of a decoded value, as an f-string inserts it;
    \<open>today\<close>: \<^verbatim>\<open>datetime.now().strftime('%B %d, %Y')\<close>;
  \<^item> \<open>markup_ok\<close>: whether reportlab's \<^verbatim>\<open>Paragraph\<close> accepts a text; on any
    other text its constructor raises \<^verbatim>\<open>ValueError\<close>;
  \<^item> \<open>doc_build\<close>: \<^verbatim>\<open>doc.build(story, ...)\<close>, \<open>None\<close> when the file is written
    and the exception otherwise.
\<close>

record pylib =
  fmul :: "pyfloat \<Rightarrow> pyfloat \<Rightarrow> pyfloat"
  fadd :: "pyfloat \<Rightarrow> pyfloat \<Rightarrow> pyfloat"
  float_of_int :: "int \<Rightarrow> pyfloat option"
  str_lower :: "ustr \<Rightarrow> ustr"
  isalnum :: "nat \<Rightarrow> bool"
  fmt_1f :: "pyfloat \<Rightarrow> ustr"
  fmt_2f :: "pyfloat \<Rightarrow> ustr"
  py_str :: "json \<Rightarrow> ustr"
  today :: ustr
  markup_ok :: "ustr \<Rightarrow> bool"
  doc_build :: "flowable list \<Rightarrow> py_error option"

text \<open>\<^verbatim>\<open>d.get(key, default)\<close> on a dict.\<close>

definition dict_get :: "(ustr \<times> json) list \<Rightarrow> ustr \<Rightarrow> json \<Rightarrow> json" where
  "dict_get d k dflt = (case map_of d k of None \<Rightarrow> dflt | Some v \<Rightarrow> v)"

text \<open>
  \<^verbatim>\<open>x.get(key, default)\<close> on any decoded value: only a dict has the method, every
  other value raises \<^verbatim>\<open>AttributeError\<close>.
\<close>

fun py_get :: "json \<Rightarrow> ustr \<Rightarrow> json \<Rightarrow> py_error + json" where
  "py_get (JObj d) k dflt = Inr (dict_get d k dflt)"
| "py_get _ k dflt = Inl AttributeError"

text \<open>
  The float an operand of \<^verbatim>\<open>x * 0.4\<close> is turned into: a float is itself, an int
  is converted, which raises \<^verbatim>\<open>OverflowError\<close> beyond the floats, a bool is the
  int 0 or 1, and any other operand raises \<^verbatim>\<open>TypeError\<close>.
\<close>

fun num_of :: "pylib \<Rightarrow> json \<Rightarrow> py_error + pyfloat" where
  "num_of lib (JFloat f) = Inr f"
| "num_of lib (JInt n) =
     (case float_of_int lib n of None \<Rightarrow> Inl OverflowError | Some f \<Rightarrow> Inr f)"
| "num_of lib (JBool b) =
     (case float_of_int lib (if b then 1 else 0) of
        None \<Rightarrow> Inl OverflowError | Some f \<Rightarrow> Inr f)"
| "num_of lib _ = Inl TypeError"

definition py_mul :: "pylib \<Rightarrow> json \<Rightarrow> pyfloat \<Rightarrow> py_error + pyfloat" where
  "py_mul lib x w = (case num_of lib x of Inl e \<Rightarrow> Inl e | Inr f \<Rightarrow> Inr (fmul lib f w))"

text \<open>
  \<^verbatim>\<open>for item in x\<close>: a list yields its elements, a dict its keys, a string its
  characters; \<^verbatim>\<open>None\<close>, a bool and a number are not iterable.
\<close>

fun py_iter :: "json \<Rightarrow> py_error + json list" where
  "py_iter (JArr xs) = Inr xs"
| "py_iter (JObj d) = Inr (map (\<lambda>kv. JStr (fst kv)) d)"
| "py_iter (JStr s) = Inr (map (\<lambda>c. JStr [c]) s)"
| "py_iter _ = Inl TypeError"

section \<open>Strings\<close>

text \<open>
  The characters for which \<^verbatim>\<open>str.isspace\<close> holds, which are also the ones
  \<^verbatim>\<open>str.strip\<close> and \<^verbatim>\<open>str.split\<close> take for whitespace: the ASCII ones, U+0085,
  U+00A0, U+1680, U+2000 to U+200A, U+2028, U+2029, U+202F, U+205F and U+3000.
\<close>

definition isspace :: "nat \<Rightarrow> bool" where
  "isspace c = (c \<in> set [0x09, 0x0A, 0x0B, 0x0C, 0x0D, 0x1C, 0x1D, 0x1E, 0x1F, 0x20,
       0x85, 0xA0, 0x1680, 0x2000, 0x2001, 0x2002, 0x2003, 0x2004, 0x2005, 0x2006,
       0x2007, 0x2008, 0x2009, 0x200A, 0x2028, 0x2029, 0x202F, 0x205F, 0x3000])"

text \<open>\<^verbatim>\<open>s.strip()\<close>: leading and trailing whitespace removed.\<close>

definition strip :: "ustr \<Rightarrow> ustr" where
  "strip s = rev (dropWhile isspace (rev (dropWhile isspace s)))"

text \<open>\<^verbatim>\<open>x.lower()\<close> on a decoded value: only a string has the method.\<close>

fun py_lower :: "pylib \<Rightarrow> json \<Rightarrow> py_error + ustr" where
  "py_lower lib (JStr s) = Inr (str_lower lib s)"
| "py_lower lib _ = Inl AttributeError"

text \<open>\<^verbatim>\<open>str(n)\<close> of a non-negative int, and of any int.\<close>

definition digit_char :: "nat \<Rightarrow> nat" where
  "digit_char d = 48 + d"

function str_nat :: "nat \<Rightarrow> ustr" where
  "str_nat n = (if n < 10 then [digit_char n] else str_nat (n div 10) @ [digit_char (n mod 10)])"
  by pat_completeness auto
termination
  by (relation "measure id") auto

declare str_nat.simps [simp del]

definition str_int :: "int \<Rightarrow> ustr" where
  "str_int i = (if i < 0 then 45 # str_nat (nat (- i)) else str_nat (nat i))"

text \<open>
  \<^verbatim>\<open>s.replace(old, new)\<close>: the occurrences of \<^verbatim>\<open>old\<close> are found from the left and
  do not overlap; an empty \<^verbatim>\<open>old\<close> matches before every character and at the end.
\<close>

function replace :: "ustr \<Rightarrow> ustr \<Rightarrow> ustr \<Rightarrow> ustr" where
  "replace old new [] = (if old = [] then new else [])"
| "replace old new (c # cs) =
     (if old = [] then new @ concat (map (\<lambda>x. x # new) (c # cs))
      else if prefix old (c # cs) then new @ replace old new (drop (length old) (c # cs))
      else c # replace old new cs)"
  by pat_completeness auto
termination
  by (relation "measure (\<lambda>(old, new, s). length s)") auto

text \<open>\<^verbatim>\<open>s.split()\<close>: the maximal runs of characters that are not whitespace.\<close>

fun split_acc :: "ustr \<Rightarrow> ustr \<Rightarrow> ustr list" where
  "split_acc cur [] = (if cur = [] then [] else [cur])"
| "split_acc cur (c # cs) =
     (if isspace c then (if cur = [] then split_acc [] cs else cur # split_acc [] cs)
      else split_acc (cur @ [c]) cs)"

definition split :: "ustr \<Rightarrow> ustr list" where
  "split s = split_acc [] s"

text \<open>\<^verbatim>\<open>sep.join(xs)\<close>.\<close>

fun join :: "ustr \<Rightarrow> ustr list \<Rightarrow> ustr" where
  "join sep [] = []"
| "join sep [x] = x"
| "join sep (x # y # ys) = x @ sep @ join sep (y # ys)"

definition placeholder :: ustr where
  "placeholder = u ''No abstract available.''"

text \<open>\<^verbatim>\<open>truncate_abstract(text, n)\<close>.\<close>

definition truncate_abstract :: "ustr \<Rightarrow> nat \<Rightarrow> ustr" where
  "truncate_abstract text n =
     (if text = [] \<or> text = placeholder then text
      else let words = split text
           in if length words > n then join (u '' '') (take n words) @ u ''...'' else text)"

text \<open>
  \<^verbatim>\<open>xml.sax.saxutils.escape(data)\<close> with no extra entities: the ampersand first,
  then the two angle brackets.
\<close>

definition escape :: "ustr \<Rightarrow> ustr" where
  "escape data =
     replace (u ''<'') (u ''&lt;'')
       (replace (u ''>'') (u ''&gt;'') (replace (u ''&'') (u ''&amp;'') data))"

text \<open>
  The table of \<^verbatim>\<open>clean_text\<close>, in the order of the dict literal: U+2010 to U+2015,
  U+2018, U+2019, U+201C, U+201D, U+2026 and U+00A0; \<^verbatim>\<open>0x27\<close> is the single and
  \<^verbatim>\<open>0x22\<close> the double quote.
\<close>

definition replacements :: "(ustr \<times> ustr) list" where
  "replacements =
     [([0x2010], u ''-''),
      ([0x2011], u ''-''),
      ([0x2012], u ''-''),
      ([0x2013], u ''-''),
      ([0x2014], u ''--''),
      ([0x2015], u ''--''),
      ([0x2018], [0x27]),
      ([0x2019], [0x27]),
      ([0x201C], [0x22]),
      ([0x201D], [0x22]),
      ([0x2026], u ''...''),
      ([0xA0], u '' '')]"

text \<open>
  \<^verbatim>\<open>clean_text(text)\<close>. The argument is a string or \<^verbatim>\<open>None\<close>. The two library
  calls are parameters: \<open>get_text\<close> is
  \<^verbatim>\<open>BeautifulSoup(text, "html.parser").get_text()\<close> and \<open>nfkd\<close> is
  \<^verbatim>\<open>unicodedata.normalize('NFKD', text)\<close>.
\<close>

definition clean_text ::
  "(ustr \<Rightarrow> ustr) \<Rightarrow> (ustr \<Rightarrow> ustr) \<Rightarrow> ustr option \<Rightarrow> ustr" where
  "clean_text get_text nfkd text =
     (case text of
        None \<Rightarrow> u ''No abstract available.''
      | Some t \<Rightarrow>
          if t = [] then u ''No abstract available.''
          else escape (fold (\<lambda>(old, new) s. replace old new s) replacements
                         (nfkd (get_text t))))"

section \<open>The critic ledger\<close>

text \<open>
  One value of \<^verbatim>\<open>CRITIC_EVALUATIONS\<close>. The first seven fields hold whatever the
  payload entry held (or the default), the last one is computed.
\<close>

record evaluation =
  relevance_score :: json
  methodological_soundness :: json
  impact_score :: json
  redundancy_flag :: json
  flags :: json
  recommended_action :: json
  rationale :: json
  overall_score :: pyfloat

type_synonym ledger = "ustr \<rightharpoonup> evaluation"

text \<open>
  The body of the loop of \<^verbatim>\<open>CriticTool.evaluate_papers\<close> for one entry: the key
  and the record stored under it, or the exception the entry raises. The title is
  read first; the dict literal evaluates its values in order, and of those only the
  three products of the last one can raise. The sum is \<^verbatim>\<open>(a + b) + c\<close>.
\<close>

definition evaluate_item :: "pylib \<Rightarrow> json \<Rightarrow> py_error + (ustr \<times> evaluation)" where
  "evaluate_item lib eval_item =
     (case py_get eval_item (u ''paper_title'') (JStr []) of
        Inl e \<Rightarrow> Inl e
      | Inr t \<Rightarrow>
     (case py_lower lib t of
        Inl e \<Rightarrow> Inl e
      | Inr l \<Rightarrow>
     (case eval_item of
        JObj d \<Rightarrow>
          (case py_mul lib (dict_get d (u ''relevance_score'') (JFloat (Fin 3.0))) float_0_4 of
             Inl e \<Rightarrow> Inl e
           | Inr a \<Rightarrow>
          (case py_mul lib (dict_get d (u ''methodological_soundness'') (JFloat (Fin 3.0)))
                  float_0_3 of
             Inl e \<Rightarrow> Inl e
           | Inr b \<Rightarrow>
          (case py_mul lib (dict_get d (u ''impact_score'') (JFloat (Fin 3.0))) float_0_3 of
             Inl e \<Rightarrow> Inl e
           | Inr c \<Rightarrow>
             Inr (strip l,
               \<lparr> relevance_score = dict_get d (u ''relevance_score'') (JFloat (Fin 3.0)),
                 methodological_soundness =
                   dict_get d (u ''methodological_soundness'') (JFloat (Fin 3.0)),
                 impact_score = dict_get d (u ''impact_score'') (JFloat (Fin 3.0)),
                 redundancy_flag = dict_get d (u ''redundancy_flag'') (JBool False),
                 flags = dict_get d (u ''flags'') (JArr []),
                 recommended_action =
                   dict_get d (u ''recommended_action'') (JStr (u ''include'')),
                 rationale = dict_get d (u ''rationale'') (JStr []),
                 overall_score = fadd lib (fadd lib a b) c \<rparr>))))
      | _ \<Rightarrow> Inl AttributeError)))"

text \<open>
  The loop: every entry writes the ledger before the next one is read, so an entry
  that raises leaves the writes of the entries before it in place. The result is the
  ledger and either the exception or the final \<^verbatim>\<open>count\<close> (here \<open>cnt\<close>).
\<close>

fun evaluate_loop ::
  "pylib \<Rightarrow> ledger \<Rightarrow> nat \<Rightarrow> json list \<Rightarrow> ledger \<times> (py_error + nat)" where
  "evaluate_loop lib L cnt [] = (L, Inr cnt)"
| "evaluate_loop lib L cnt (x # xs) =
     (case evaluate_item lib x of
        Inl e \<Rightarrow> (L, Inl e)
      | Inr (k, v) \<Rightarrow> evaluate_loop lib (L(k \<mapsto> v)) (Suc cnt) xs)"

text \<open>
  The three strings \<^verbatim>\<open>evaluate_papers\<close> returns:
  \<^verbatim>\<open>"Critic: Successfully evaluated {count} papers. ..."\<close>,
  \<^verbatim>\<open>"Critic Error: Invalid JSON format - ..."\<close> and \<^verbatim>\<open>"Critic Error: ..."\<close>.
\<close>

datatype critic_result =
    Critic_Success nat
  | Critic_Invalid_JSON
  | Critic_Error py_error

text \<open>
  \<^verbatim>\<open>CriticTool.evaluate_papers\<close>. Its argument here is what
  \<^verbatim>\<open>json.loads(evaluations)\<close> gives: the decoded value, or \<open>None\<close> when the decoder
  raises \<^verbatim>\<open>JSONDecodeError\<close>. Both \<^verbatim>\<open>except\<close> clauses return a string and undo
  nothing.
\<close>

definition evaluate_papers ::
  "pylib \<Rightarrow> ledger \<Rightarrow> json option \<Rightarrow> ledger \<times> critic_result" where
  "evaluate_papers lib L decoded =
     (case decoded of
        None \<Rightarrow> (L, Critic_Invalid_JSON)
      | Some evals \<Rightarrow>
          (case py_iter evals of
             Inl e \<Rightarrow> (L, Critic_Error e)
           | Inr items \<Rightarrow>
               (case evaluate_loop lib L 0 items of
                  (L', Inl e) \<Rightarrow> (L', Critic_Error e)
                | (L', Inr cnt) \<Rightarrow> (L', Critic_Success cnt))))"

text \<open>
  Reference notions for the ingestion loop. A value converts when it is a number
  that has a float. An entry is well formed when the loop body does not raise on
  it: it is a dict, its \<^verbatim>\<open>paper_title\<close> (or the default) is a string and its three
  sub-scores (or the defaults) convert. \<open>ingest\<close> writes a list of entries one
  after the other. The invariant of a ledger record is that its composite is the
  weighted sum of its three stored sub-scores, in the arithmetic of the library.
\<close>

definition converts :: "pylib \<Rightarrow> json \<Rightarrow> bool" where
  "converts lib v = (case num_of lib v of Inl e \<Rightarrow> False | Inr f \<Rightarrow> True)"

definition well_formed :: "pylib \<Rightarrow> json \<Rightarrow> bool" where
  "well_formed lib x =
     (case x of
        JObj d \<Rightarrow>
          (case dict_get d (u ''paper_title'') (JStr []) of
             JStr t \<Rightarrow>
               converts lib (dict_get d (u ''relevance_score'') (JFloat (Fin 3.0))) \<and>
               converts lib (dict_get d (u ''methodological_soundness'') (JFloat (Fin 3.0))) \<and>
               converts lib (dict_get d (u ''impact_score'') (JFloat (Fin 3.0)))
           | _ \<Rightarrow> False)
      | _ \<Rightarrow> False)"

definition ingest_one :: "pylib \<Rightarrow> json \<Rightarrow> ledger \<Rightarrow> ledger" where
  "ingest_one lib x L =
     (case evaluate_item lib x of Inl e \<Rightarrow> L | Inr (k, v) \<Rightarrow> L(k \<mapsto> v))"

definition ingest :: "pylib \<Rightarrow> json list \<Rightarrow> ledger \<Rightarrow> ledger" where
  "ingest lib xs L = fold (ingest_one lib) xs L"

definition composite_ok :: "pylib \<Rightarrow> evaluation \<Rightarrow> bool" where
  "composite_ok lib e =
     (case (num_of lib (relevance_score e), num_of lib (methodological_soundness e),
            num_of lib (impact_score e)) of
        (Inr r, Inr m, Inr i) \<Rightarrow>
          overall_score e
            = fadd lib (fadd lib (fmul lib r float_0_4) (fmul lib m float_0_3))
                (fmul lib i float_0_3)
      | _ \<Rightarrow> False)"

section \<open>The paper store\<close>

text \<open>
  One element of \<^verbatim>\<open>COLLECTED_PAPERS\<close>. The four search tools build every paper with
  the same nine keys; the three \<^verbatim>\<open>critic_\<close> keys are absent until a report is
  generated, so they are optional here. The title is a string or \<^verbatim>\<open>None\<close>: the
  Semantic Scholar and the OpenAlex tool store what the service gives, which can be
  \<^verbatim>\<open>None\<close>. The abstract is the result of \<^verbatim>\<open>clean_text\<close>, a string, and the
  source a string literal. The citation count is an int: the literal 0 for PubMed
  and arXiv, the count the service gives for the other two. The names of the
  authors, the publication year, the URL and the venue are what the service gives,
  a string, an int or \<^verbatim>\<open>None\<close>, so they stay decoded values; the tools only print
  them or hand them on. No dict occurs twice in the list: every tool appends a dict
  it has just built.
\<close>

record paper =
  title :: "ustr option"
  authors :: "json list"
  pub_year :: json
  abstract :: ustr
  url :: json
  source :: ustr
  citation_count :: int
  venue :: json
  paper_id :: ustr
  critic_evaluation :: "evaluation option"
  critic_rank :: "pyfloat option"
  critic_action :: "json option"

subsection \<open>\<^verbatim>\<open>CriticTool.deduplicate_collection\<close>\<close>

text \<open>
  \<^verbatim>\<open>"".join(filter(str.isalnum, raw_title)).strip()\<close> of the lowercased title;
  \<^verbatim>\<open>None\<close> has no method \<^verbatim>\<open>lower\<close>.
\<close>

definition clean_title :: "pylib \<Rightarrow> paper \<Rightarrow> py_error + ustr" where
  "clean_title lib p =
     (case title p of
        None \<Rightarrow> Inl AttributeError
      | Some t \<Rightarrow> Inr (strip (filter (isalnum lib) (str_lower lib t))))"




subsection \<open>Join, rank and filter of the report tools\<close>

text \<open>
  \<^verbatim>\<open>PDFReportTool.generate_report\<close> and \<^verbatim>\<open>HTMLReportTool.generate_html_report\<close>
  begin with the same statements, modelled once. The key of a paper is
  \<^verbatim>\<open>p['title'].lower().strip()\<close>.
\<close>

definition report_key :: "pylib \<Rightarrow> paper \<Rightarrow> py_error + ustr" where
  "report_key lib p =
     (case title p of
        None \<Rightarrow> Inl AttributeError
      | Some t \<Rightarrow> Inr (strip (str_lower lib t)))"

text \<open>The assignments to a paper whose key is new.\<close>

definition attach :: "ledger \<Rightarrow> ustr \<Rightarrow> paper \<Rightarrow> paper" where
  "attach L key p =
     (case L key of
        Some e \<Rightarrow> p\<lparr> critic_evaluation := Some e,
                      critic_rank := Some (overall_score e),
                      critic_action := Some (recommended_action e) \<rparr>
      | None \<Rightarrow> p\<lparr> critic_rank := Some (Fin 3.0),
                    critic_action := Some (JStr (u ''include'')) \<rparr>)"

text \<open>
  The loop over the store. A paper is a mutable dict, so the assignments change the
  element of the store as well as the one appended to \<^verbatim>\<open>unique_papers\<close>: the
  result is the store after the loop and \<^verbatim>\<open>unique_papers\<close>, or the store as the
  loop left it and the exception.
\<close>

fun join_loop ::
  "pylib \<Rightarrow> ledger \<Rightarrow> ustr set \<Rightarrow> paper list \<Rightarrow> paper list \<times> (py_error + paper list)" where
  "join_loop lib L seen [] = ([], Inr [])"
| "join_loop lib L seen (p # ps) =
     (case report_key lib p of
        Inl e \<Rightarrow> (p # ps, Inl e)
      | Inr key \<Rightarrow>
          if key \<notin> seen then
            (case join_loop lib L (insert key seen) ps of
               (store, Inl e) \<Rightarrow> (attach L key p # store, Inl e)
             | (store, Inr unique_papers) \<Rightarrow>
                 (attach L key p # store, Inr (attach L key p # unique_papers)))
          else
            (case join_loop lib L seen ps of
               (store, r) \<Rightarrow> (p # store, r)))"

text \<open>
  The sort key \<^verbatim>\<open>(x.get('critic_rank', 0), x.get('citation_count', 0))\<close>, and
  \<^verbatim>\<open><\<close> on two such tuples as Python evaluates it: the first components are
  compared with \<^verbatim>\<open>==\<close>; when they differ the result is their \<^verbatim>\<open><\<close>, otherwise that
  of the second components.
\<close>

definition sort_key_of :: "paper \<Rightarrow> pyfloat \<times> int" where
  "sort_key_of x =
     ((case critic_rank x of None \<Rightarrow> Fin 0 | Some r \<Rightarrow> r), citation_count x)"

definition tuple_lt :: "pyfloat \<times> int \<Rightarrow> pyfloat \<times> int \<Rightarrow> bool" where
  "tuple_lt a b = (if \<not> feq (fst a) (fst b) then flt (fst a) (fst b) else snd a < snd b)"

definition key_lt :: "paper \<Rightarrow> paper \<Rightarrow> bool" where
  "key_lt x y = tuple_lt (sort_key_of x) (sort_key_of y)"

text \<open>
  \<^verbatim>\<open>list.sort\<close> with a comparison \<open>lt\<close>. The sort first measures the run at the
  start of the list, and a list that is one run, no element less than the one
  before it, is left as it is. Any other list is sorted by merging runs. Where
  \<open>lt\<close> orders the elements (any two are comparable, as floats other than NaN are)
  the result is the one stable sorted list, which insertion from the right gives
  too; where it does not, the result of the merges is outside this model.
\<close>

fun is_run :: "('a \<Rightarrow> 'a \<Rightarrow> bool) \<Rightarrow> 'a list \<Rightarrow> bool" where
  "is_run lt [] = True"
| "is_run lt [x] = True"
| "is_run lt (x # y # zs) = (\<not> lt y x \<and> is_run lt (y # zs))"

fun insort_lt :: "('a \<Rightarrow> 'a \<Rightarrow> bool) \<Rightarrow> 'a \<Rightarrow> 'a list \<Rightarrow> 'a list" where
  "insort_lt lt x [] = [x]"
| "insort_lt lt x (y # ys) = (if lt y x then y # insort_lt lt x ys else x # y # ys)"

definition py_sort :: "('a \<Rightarrow> 'a \<Rightarrow> bool) \<Rightarrow> 'a list \<Rightarrow> 'a list" where
  "py_sort lt xs = (if is_run lt xs then xs else foldr (insort_lt lt) xs [])"

text \<open>
  \<^verbatim>\<open>list.sort(key=..., reverse=True)\<close>: the list is reversed, sorted, and reversed
  again, so that elements with equal keys keep their order.
\<close>

definition sort_reverse :: "('a \<Rightarrow> 'a \<Rightarrow> bool) \<Rightarrow> 'a list \<Rightarrow> 'a list" where
  "sort_reverse lt xs = rev (py_sort lt (rev xs))"

definition included :: "paper \<Rightarrow> bool" where
  "included p = (critic_action p \<noteq> Some (JStr (u ''exclude'')))"

text \<open>What the shared statements compute once the loop has ended.\<close>

record ranking =
  unique_papers :: "paper list"
  included_papers :: "paper list"
  excluded_count :: int

text \<open>
  The shared statements: the store as they leave it, and the ranking or the
  exception of the loop.
\<close>

definition compose :: "pylib \<Rightarrow> ledger \<Rightarrow> paper list \<Rightarrow> paper list \<times> (py_error + ranking)" where
  "compose lib L papers =
     (case join_loop lib L {} papers of
        (store, Inl e) \<Rightarrow> (store, Inl e)
      | (store, Inr unique) \<Rightarrow>
          let sorted_papers = sort_reverse key_lt unique;
              incl = filter included sorted_papers
          in (store,
              Inr \<lparr> unique_papers = sorted_papers,
                    included_papers = incl,
                    excluded_count = int (length sorted_papers) - int (length incl) \<rparr>))"

section \<open>\<^verbatim>\<open>CriticTool.get_papers_for_evaluation\<close>\<close>

text \<open>
  The tool returns \<^verbatim>\<open>json.dumps\<close> of a dict; the model gives the dict. The entry of
  one paper:
\<close>

definition paper_for_eval :: "paper \<Rightarrow> json" where
  "paper_for_eval p =
     JObj [(u ''title'', (case title p of None \<Rightarrow> JNull | Some t \<Rightarrow> JStr t)),
           (u ''authors'', JArr (take 3 (authors p))),
           (u ''pub_year'', pub_year p),
           (u ''abstract'', JStr (truncate_abstract (abstract p) 150)),
           (u ''source'', JStr (source p)),
           (u ''citation_count'', JInt (citation_count p)),
           (u ''venue'', venue p)]"

definition get_papers_for_evaluation :: "paper list \<Rightarrow> json" where
  "get_papers_for_evaluation papers =
     (if papers = [] then JObj [(u ''error'', JStr (u ''No papers available for evaluation''))]
      else
        let papers_for_eval = map paper_for_eval papers
        in JObj [(u ''total_papers'', JInt (int (length papers_for_eval))),
                 (u ''papers'', JArr papers_for_eval)])"

section \<open>The PDF report\<close>

text \<open>A statement that can raise, followed by what uses its value.\<close>

definition and_then :: "py_error + 'a \<Rightarrow> ('a \<Rightarrow> py_error + 'b) \<Rightarrow> py_error + 'b" where
  "and_then m f = (case m of Inl e \<Rightarrow> Inl e | Inr x \<Rightarrow> f x)"

text \<open>
  \<^verbatim>\<open>f"{x:.1f}"\<close> of a decoded value: a float is formatted, an int or a bool is
  converted first, a string raises \<^verbatim>\<open>ValueError\<close> and every other value
  \<^verbatim>\<open>TypeError\<close>.
\<close>

fun format_f :: "pylib \<Rightarrow> (pyfloat \<Rightarrow> ustr) \<Rightarrow> json \<Rightarrow> py_error + ustr" where
  "format_f lib fmt (JStr s) = Inl ValueError"
| "format_f lib fmt x = (case num_of lib x of Inl e \<Rightarrow> Inl e | Inr f \<Rightarrow> Inr (fmt f))"

text \<open>The truth value of a decoded value in \<^verbatim>\<open>if x:\<close>; NaN is true.\<close>

fun py_truthy :: "json \<Rightarrow> bool" where
  "py_truthy JNull = False"
| "py_truthy (JBool b) = b"
| "py_truthy (JInt n) = (n \<noteq> 0)"
| "py_truthy (JFloat f) = (\<not> feq f (Fin 0))"
| "py_truthy (JStr s) = (s \<noteq> [])"
| "py_truthy (JArr xs) = (xs \<noteq> [])"
| "py_truthy (JObj d) = (d \<noteq> [])"

text \<open>
  \<^verbatim>\<open>sep.join(x)\<close> of a decoded value: the elements of a list must all be strings, a
  string gives its characters, a dict its keys, anything else is not iterable.
\<close>

fun str_items :: "json list \<Rightarrow> ustr list option" where
  "str_items [] = Some []"
| "str_items (JStr s # xs) = (case str_items xs of None \<Rightarrow> None | Some ys \<Rightarrow> Some (s # ys))"
| "str_items (_ # xs) = None"

fun py_join :: "ustr \<Rightarrow> json \<Rightarrow> py_error + ustr" where
  "py_join sep (JArr xs) =
     (case str_items xs of None \<Rightarrow> Inl TypeError | Some ys \<Rightarrow> Inr (join sep ys))"
| "py_join sep (JStr s) = Inr (join sep (map (\<lambda>c. [c]) s))"
| "py_join sep (JObj d) = Inr (join sep (map fst d))"
| "py_join sep _ = Inl TypeError"

text \<open>The black star U+2605, the black circle U+25CF and the single quote.\<close>

definition star :: ustr where
  "star = [0x2605]"

definition bullet :: ustr where
  "bullet = [0x25CF]"

definition sq :: ustr where
  "sq = [0x27]"

text \<open>\<^verbatim>\<open>Paragraph(text, style)\<close>: the constructor parses the text.\<close>

definition mk_paragraph :: "pylib \<Rightarrow> ustr \<Rightarrow> ustr \<Rightarrow> py_error + flowable" where
  "mk_paragraph lib text style =
     (if markup_ok lib text then Inr (Paragraph text style) else Inl ValueError)"

text \<open>
  The text of entry \<open>i\<close> of the table of contents. \<^verbatim>\<open>paper['title'][:80]\<close> raises
  \<^verbatim>\<open>TypeError\<close> on \<^verbatim>\<open>None\<close>.
\<close>

definition toc_entry :: "pylib \<Rightarrow> nat \<Rightarrow> paper \<Rightarrow> py_error + ustr" where
  "toc_entry lib i paper =
     (let has_eval = (critic_evaluation paper \<noteq> None);
          score = (case critic_rank paper of None \<Rightarrow> Fin 3.0 | Some r \<Rightarrow> r);
          prefix_color =
            (if fge score (Fin 4.5) then (star @ star @ u '' '', u ''darkgreen'')
             else if fge score (Fin 4.0) then (star @ u '' '', u ''darkgreen'')
             else ([], u ''darkgrey''))
      in case title paper of
           None \<Rightarrow> Inl TypeError
         | Some t \<Rightarrow>
             let clean_title = replace (u '']'') [] (replace (u ''['') [] (take 80 t));
                 entry = u ''<a href='' @ sq @ u ''#paper'' @ str_nat i @ sq @ u '' color=''
                   @ sq @ u ''black'' @ sq @ u ''>'' @ str_nat i @ u ''. '' @ fst prefix_color
                   @ u ''<b>'' @ clean_title @ u ''...</b></a>''
             in if has_eval
                then Inr (entry @ u '' <font color='' @ sq @ snd prefix_color @ sq @ u ''>[''
                            @ fmt_1f lib score @ u '']</font>'')
                else Inr entry)"

text \<open>The title as an f-string inserts it: \<^verbatim>\<open>None\<close> is printed as such.\<close>

definition title_str :: "paper \<Rightarrow> ustr" where
  "title_str paper = (case title paper of None \<Rightarrow> u ''None'' | Some t \<Rightarrow> t)"

text \<open>The title line of bibliography entry \<open>i\<close>.\<close>

definition title_text :: "nat \<Rightarrow> paper \<Rightarrow> ustr" where
  "title_text i paper =
     (let has_eval = (critic_evaluation paper \<noteq> None);
          score = (case critic_rank paper of None \<Rightarrow> Fin 3.0 | Some r \<Rightarrow> r);
          anchor = u ''<a name='' @ sq @ u ''paper'' @ str_nat i @ sq @ u ''/>''
      in if has_eval \<and> fge score (Fin 4.5)
           then anchor @ star @ star @ u '' <b>EXCEPTIONAL: '' @ title_str paper @ u ''</b>''
         else if has_eval \<and> fge score (Fin 4.0)
           then anchor @ star @ u '' <b>HIGHLY RATED: '' @ title_str paper @ u ''</b>''
         else anchor @ u ''<b>'' @ str_nat i @ u ''. '' @ title_str paper @ u ''</b>'')"

definition meta_info :: "pylib \<Rightarrow> paper \<Rightarrow> ustr" where
  "meta_info lib paper =
     u ''<i>'' @ source paper @ u '' | '' @ py_str lib (pub_year paper) @ u '' | ''
     @ py_str lib (venue paper)
     @ (if citation_count paper > 0
        then u '' | Citations: '' @ str_int (citation_count paper) else [])
     @ u ''</i>''"

text \<open>
  The label and the colour of the critic paragraph, chosen from the
  \<^verbatim>\<open>overall_score\<close> of the attached evaluation.
\<close>

definition score_label :: "pyfloat \<Rightarrow> ustr \<times> ustr" where
  "score_label overall =
     (if fge overall (Fin 4.5) then (u ''darkgreen'', u ''EXCEPTIONAL'')
      else if fge overall (Fin 4.0) then (u ''green'', u ''EXCELLENT'')
      else if fge overall (Fin 3.5) then (u ''darkorange'', u ''GOOD'')
      else (u ''darkgrey'', u ''ACCEPTABLE''))"

text \<open>
  The text of the critic paragraph. The default argument of
  \<^verbatim>\<open>eval_data.get('overall_score', ...)\<close> is evaluated before the call, so its three
  products can raise although the key is always there.
\<close>

definition eval_text :: "pylib \<Rightarrow> evaluation \<Rightarrow> py_error + ustr" where
  "eval_text lib eval_data =
     and_then (py_mul lib (relevance_score eval_data) float_0_4) (\<lambda>a.
     and_then (py_mul lib (methodological_soundness eval_data) float_0_3) (\<lambda>b.
     and_then (py_mul lib (impact_score eval_data) float_0_3) (\<lambda>c.
     and_then (format_f lib (fmt_1f lib) (relevance_score eval_data)) (\<lambda>rel.
     and_then (format_f lib (fmt_1f lib) (methodological_soundness eval_data)) (\<lambda>meth.
     and_then (format_f lib (fmt_1f lib) (impact_score eval_data)) (\<lambda>imp.
       (let overall = overall_score eval_data;
            text = u ''<b><font color='' @ sq @ fst (score_label overall) @ sq @ u ''>''
              @ bullet @ u '' Critic Assessment ['' @ snd (score_label overall) @ u '': ''
              @ fmt_2f lib overall @ u ''/5.0]</font></b><br/>''
              @ u ''Relevance: '' @ rel @ u '' | '' @ u ''Methodology: '' @ meth @ u '' | ''
              @ u ''Impact: '' @ imp @ u ''<br/>''
              @ u ''<i>'' @ py_str lib (rationale eval_data) @ u ''</i>''
        in if py_truthy (flags eval_data)
           then and_then (py_join (u '', '') (flags eval_data))
                  (\<lambda>tags. Inr (text @ u ''<br/><b>Tags:</b> '' @ tags))
           else Inr text)))))))"

text \<open>
  The body of the loop that fills the bibliography, for entry \<open>i\<close>: the
  paragraphs are built in this order, and the first that raises ends the tool.
\<close>

definition bib_entry :: "pylib \<Rightarrow> nat \<Rightarrow> paper \<Rightarrow> py_error + flowable" where
  "bib_entry lib i paper =
     and_then (mk_paragraph lib (title_text i paper) (u ''BT'')) (\<lambda>p_title.
     and_then (mk_paragraph lib (meta_info lib paper) (u ''BM'')) (\<lambda>p_meta.
     and_then (mk_paragraph lib (truncate_abstract (abstract paper) 100) (u ''BM'')) (\<lambda>p_abs.
     and_then
       (case critic_evaluation paper of
          None \<Rightarrow> Inr []
        | Some eval_data \<Rightarrow>
            and_then (eval_text lib eval_data) (\<lambda>t.
            and_then (mk_paragraph lib t (u ''CS'')) (\<lambda>p_critic.
              Inr [Spacer 0.125, p_critic]))) (\<lambda>critic.
     and_then (mk_paragraph lib (u ''URL: '' @ py_str lib (url paper)) (u ''U'')) (\<lambda>p_url.
       Inr (KeepTogether ([p_title, p_meta, p_abs] @ critic @ [p_url, Spacer 0.65])))))))"

text \<open>A sequence of statements that can raise: the first exception ends it.\<close>

fun collect :: "(py_error + 'a) list \<Rightarrow> py_error + 'a list" where
  "collect [] = Inr []"
| "collect (Inl e # xs) = Inl e"
| "collect (Inr x # xs) = (case collect xs of Inl e \<Rightarrow> Inl e | Inr ys \<Rightarrow> Inr (x # ys))"

text \<open>\<^verbatim>\<open>enumerate(xs, 1)\<close>.\<close>

definition enumerate1 :: "'a list \<Rightarrow> (nat \<times> 'a) list" where
  "enumerate1 xs = zip [1..<Suc (length xs)] xs"

text \<open>The list \<^verbatim>\<open>story\<close>, in the order in which the tool appends to it.\<close>

definition build_story ::
  "pylib \<Rightarrow> ustr \<Rightarrow> ustr \<Rightarrow> paper list \<Rightarrow> int \<Rightarrow> py_error + flowable list" where
  "build_story lib executive_summary subject incl excluded =
     collect
       ([mk_paragraph lib (u ''Research Report: '' @ subject) (u ''T''),
         mk_paragraph lib (u ''Date: '' @ today lib) (u ''BM''),
         Inr (Spacer 0.75),
         mk_paragraph lib (u ''Executive Summary'') (u ''H''),
         mk_paragraph lib (replace [0x0A] (u ''<br/>'') executive_summary) (u ''S'')]
        @ (if excluded > 0
           then [Inr (Spacer 0.5),
                 mk_paragraph lib (u ''<b>Quality Control:</b> '' @ str_nat (length incl)
                   @ u '' papers included, '' @ str_int excluded
                   @ u '' excluded after critic evaluation.'') (u ''BM'')]
           else [])
        @ [Inr PageBreak,
           mk_paragraph lib (u ''Table of Contents'') (u ''H'')]
        @ map (\<lambda>(i, paper).
                 and_then (toc_entry lib i paper) (\<lambda>t. mk_paragraph lib t (u ''TOC'')))
            (enumerate1 incl)
        @ [Inr PageBreak,
           mk_paragraph lib (u ''Detailed Bibliography ('' @ str_nat (length incl)
             @ u '' Sources)'') (u ''H'')]
        @ map (\<lambda>(i, paper). bib_entry lib i paper) (enumerate1 incl))"

section \<open>The two report tools\<close>

text \<open>
  The globals and the files written. A PDF file is the story it was built from, an
  HTML file its text.
\<close>

datatype document = PDF_story "flowable list" | HTML_text ustr

record state =
  COLLECTED_PAPERS :: "paper list"
  CRITIC_EVALUATIONS :: ledger
  files :: "ustr \<rightharpoonup> document"

definition summary_msg :: "ustr \<Rightarrow> nat \<Rightarrow> int \<Rightarrow> ustr" where
  "summary_msg head n excluded =
     head @ u '' ('' @ str_nat n @ u '' papers''
     @ (if excluded > 0 then u '', '' @ str_int excluded @ u '' excluded by critic'' else [])
     @ u '')''"

text \<open>
  \<^verbatim>\<open>PDFReportTool.generate_report\<close>: the state after the call, and the string
  returned or the exception raised. The assignments to the papers are made before
  anything is rendered, so they stay when the rendering raises.
\<close>

definition generate_report ::
  "pylib \<Rightarrow> ustr \<Rightarrow> ustr \<Rightarrow> state \<Rightarrow> state \<times> (py_error + ustr)" where
  "generate_report lib executive_summary subject s =
     (if COLLECTED_PAPERS s = [] then (s, Inr (u ''Error: Collection is empty.''))
      else
        case compose lib (CRITIC_EVALUATIONS s) (COLLECTED_PAPERS s) of
          (store, Inl e) \<Rightarrow> (s\<lparr> COLLECTED_PAPERS := store \<rparr>, Inl e)
        | (store, Inr c) \<Rightarrow>
            let s1 = s\<lparr> COLLECTED_PAPERS := store \<rparr>
            in case build_story lib executive_summary subject
                      (included_papers c) (excluded_count c) of
                 Inl e \<Rightarrow> (s1, Inl e)
               | Inr story \<Rightarrow>
                   (case doc_build lib story of
                      Some e \<Rightarrow> (s1, Inl e)
                    | None \<Rightarrow>
                        (s1\<lparr> files :=
                               (files s1)(u ''executive_summary.pdf'' \<mapsto> PDF_story story) \<rparr>,
                         Inr (summary_msg (u ''PDF Generated: executive_summary.pdf'')
                                (length (included_papers c)) (excluded_count c)))))"

text \<open>
  \<^verbatim>\<open>HTMLReportTool.generate_html_report\<close>. The method \<^verbatim>\<open>_generate_html\<close>, which
  turns the subject, the summary, the included papers and the excluded count into
  the text of the page, is a parameter; it can raise.
\<close>

definition generate_html_report ::
  "pylib \<Rightarrow> (ustr \<Rightarrow> ustr \<Rightarrow> paper list \<Rightarrow> int \<Rightarrow> py_error + ustr) \<Rightarrow>
   ustr \<Rightarrow> ustr \<Rightarrow> state \<Rightarrow> state \<times> (py_error + ustr)" where
  "generate_html_report lib generate_html executive_summary subject s =
     (if COLLECTED_PAPERS s = [] then (s, Inr (u ''Error: Collection is empty.''))
      else
        case compose lib (CRITIC_EVALUATIONS s) (COLLECTED_PAPERS s) of
          (store, Inl e) \<Rightarrow> (s\<lparr> COLLECTED_PAPERS := store \<rparr>, Inl e)
        | (store, Inr c) \<Rightarrow>
            let s1 = s\<lparr> COLLECTED_PAPERS := store \<rparr>
            in case generate_html subject executive_summary
                      (included_papers c) (excluded_count c) of
                 Inl e \<Rightarrow> (s1, Inl e)
               | Inr html_content \<Rightarrow>
                   (s1\<lparr> files :=
                          (files s1)(u ''executive_summary.html'' \<mapsto> HTML_text html_content) \<rparr>,
                    Inr (summary_msg (u ''HTML Generated: executive_summary.html'')
                           (length (included_papers c)) (excluded_count c))))"

section \<open>Reference notions\<close>

subsection \<open>For the store\<close>

text \<open>
  A store is titled when every title is a string. \<open>norm_title\<close> is the cleaned
  title of such a paper, and the paper is unverifiable when that is empty or
  \<^verbatim>\<open>untitled\<close>. \<open>kept\<close> is the deduplication loop on a titled store, where no
  step raises. Position \<open>i\<close> of a store holds the first occurrence of its cleaned
  title when no earlier position has the same one; \<open>first_of_title\<close> is the same
  with the titles the loop has already seen.
\<close>

definition titled :: "paper list \<Rightarrow> bool" where
  "titled ps = list_all (\<lambda>p. title p \<noteq> None) ps"






subsection \<open>For the reports\<close>

text \<open>
  \<open>key_of\<close> is the report key of a paper whose title is a string, and \<open>joined\<close>
  the join loop on a titled store. Position \<open>i\<close> of the store holds the first
  paper of its report key; \<open>first_key_seen\<close> is the same with the keys the loop has
  already seen. \<open>strip_critic\<close> forgets the three fields a report attaches.
\<close>

definition key_of :: "pylib \<Rightarrow> paper \<Rightarrow> ustr" where
  "key_of lib p = (case title p of None \<Rightarrow> [] | Some t \<Rightarrow> strip (str_lower lib t))"

fun joined :: "pylib \<Rightarrow> ledger \<Rightarrow> ustr set \<Rightarrow> paper list \<Rightarrow> paper list \<times> paper list" where
  "joined lib L seen [] = ([], [])"
| "joined lib L seen (p # ps) =
     (if key_of lib p \<notin> seen then
        (case joined lib L (insert (key_of lib p) seen) ps of
           (store, unique) \<Rightarrow>
             (attach L (key_of lib p) p # store, attach L (key_of lib p) p # unique))
      else
        (case joined lib L seen ps of
           (store, unique) \<Rightarrow> (p # store, unique)))"

definition first_key_seen :: "pylib \<Rightarrow> ustr set \<Rightarrow> paper list \<Rightarrow> nat \<Rightarrow> bool" where
  "first_key_seen lib seen ps i =
     (key_of lib (ps ! i) \<notin> seen \<and> (\<forall>j < i. key_of lib (ps ! j) \<noteq> key_of lib (ps ! i)))"


definition strip_critic :: "paper \<Rightarrow> paper" where
  "strip_critic p = p\<lparr> critic_evaluation := None, critic_rank := None, critic_action := None \<rparr>"





text \<open>
  The star marker of a rank: two stars from 4.5, one star from 4.0, nothing below,
  each followed by a space.
\<close>

definition star_marker :: "pyfloat \<Rightarrow> ustr" where
  "star_marker r =
     (if fge r (Fin 4.5) then star @ star @ u '' ''
      else if fge r (Fin 4.0) then star @ u '' '' else [])"

subsection \<open>For \<^verbatim>\<open>clean_text\<close>\<close>

text \<open>
  A text is escaped when it has no angle bracket and every ampersand starts one of
  the three entities that \<^verbatim>\<open>escape\<close> writes. \<open>esc_char\<close> is what \<^verbatim>\<open>escape\<close>
  writes for one character; 38, 60 and 62 are the ampersand and the two brackets.
\<close>

fun escaped :: "ustr \<Rightarrow> bool" where
  "escaped [] = True"
| "escaped (c # cs) =
     (if c = 60 \<or> c = 62 then False
      else if c = 38
        then (prefix (u ''amp;'') cs \<or> prefix (u ''lt;'') cs \<or> prefix (u ''gt;'') cs)
             \<and> escaped cs
      else escaped cs)"

definition esc_char :: "nat \<Rightarrow> ustr" where
  "esc_char c = (if c = 38 then u ''&amp;'' else if c = 62 then u ''&gt;''
                 else if c = 60 then u ''&lt;'' else [c])"

text \<open>
  A stand-in for \<^verbatim>\<open>BeautifulSoup(text, "html.parser").get_text()\<close> on a text
  with tags and no entity, comment or script: what stands between \<^verbatim>\<open><\<close> and
  \<^verbatim>\<open>>\<close> is dropped, the rest is kept. The flag says whether a tag is open.
\<close>

fun drop_tags :: "bool \<Rightarrow> ustr \<Rightarrow> ustr" where
  "drop_tags in_tag [] = []"
| "drop_tags in_tag (c # cs) =
     (if in_tag then (if c = 62 then drop_tags False cs else drop_tags True cs)
      else if c = 60 then drop_tags True cs
      else c # drop_tags False cs)"

section \<open>Concrete runs\<close>

text \<open>
  An instance of the library for the runs below. Its product and sum are the exact
  ones of finite floats, without rounding, and NaN on anything else; an int has a
  float when it is below the bound from which Python raises \<^verbatim>\<open>OverflowError\<close>; the
  case and the letters are those of ASCII and Latin-1; the formats are fixed texts;
  every paragraph is accepted and every file is written.
\<close>

fun exact_mul :: "pyfloat \<Rightarrow> pyfloat \<Rightarrow> pyfloat" where
  "exact_mul (Fin a) (Fin b) = Fin (a * b)"
| "exact_mul _ _ = NaN"

fun exact_add :: "pyfloat \<Rightarrow> pyfloat \<Rightarrow> pyfloat" where
  "exact_add (Fin a) (Fin b) = Fin (a + b)"
| "exact_add _ _ = NaN"

definition exact_float :: "int \<Rightarrow> pyfloat option" where
  "exact_float n = (if \<bar>n\<bar> < 2 ^ 1024 - 2 ^ 970 then Some (Fin (of_int n)) else None)"

text \<open>An int beyond the floats.\<close>

definition too_big :: int where
  "too_big = 10 ^ 309"

definition lower_cp :: "nat \<Rightarrow> nat" where
  "lower_cp c =
     (if (65 \<le> c \<and> c \<le> 90) \<or> (0xC0 \<le> c \<and> c \<le> 0xDE \<and> c \<noteq> 0xD7) then c + 32 else c)"

definition alnum_cp :: "nat \<Rightarrow> bool" where
  "alnum_cp c =
     ((48 \<le> c \<and> c \<le> 57) \<or> (65 \<le> c \<and> c \<le> 90) \<or> (97 \<le> c \<and> c \<le> 122)
      \<or> (0xC0 \<le> c \<and> c \<le> 0xFF \<and> c \<noteq> 0xD7 \<and> c \<noteq> 0xF7))"

definition example_lib :: pylib where
  "example_lib =
     \<lparr> fmul = exact_mul, fadd = exact_add, float_of_int = exact_float,
       str_lower = map lower_cp, isalnum = alnum_cp,
       fmt_1f = (\<lambda>r. u ''0.0''), fmt_2f = (\<lambda>r. u ''0.00''), py_str = (\<lambda>v. u ''text''),
       today = u ''January 10, 2026'', markup_ok = (\<lambda>t. True), doc_build = (\<lambda>s. None) \<rparr>"

definition example_html :: "ustr \<Rightarrow> ustr \<Rightarrow> paper list \<Rightarrow> int \<Rightarrow> py_error + ustr" where
  "example_html subject executive_summary papers excluded = Inr (u ''<!DOCTYPE html>'')"

text \<open>A paper as the arXiv tool builds it, with a title and a citation count.\<close>

definition example_paper :: "ustr \<Rightarrow> int \<Rightarrow> paper" where
  "example_paper t c =
     \<lparr> title = Some t, authors = [JStr (u ''A. Author'')], pub_year = JInt 2024,
       abstract = u ''No abstract available.'', url = JStr (u ''N/A''), source = u ''arXiv'',
       citation_count = c, venue = JStr (u ''arXiv Preprint''), paper_id = t,
       critic_evaluation = None, critic_rank = None, critic_action = None \<rparr>"

text \<open>An abstract of 151 words.\<close>

definition long_abstract :: ustr where
  "long_abstract = join (u '' '') (replicate 151 (u ''w''))"

text \<open>A work as the OpenAlex tool stores it when the service gives no \<^verbatim>\<open>display_name\<close>.\<close>

definition example_untitled :: "int \<Rightarrow> paper" where
  "example_untitled c =
     \<lparr> title = None, authors = [JStr (u ''A. Author'')], pub_year = JInt 2024,
       abstract = u ''No abstract available.'', url = JStr (u ''https://openalex.org/W1''),
       source = u ''OpenAlex'', citation_count = c, venue = JStr (u ''Unknown''),
       paper_id = u ''https://openalex.org/W1'',
       critic_evaluation = None, critic_rank = None, critic_action = None \<rparr>"

text \<open>
  An evaluation with a given composite and action, and a ledger in which paper
  \<^verbatim>\<open>a\<close> is rated 4.8 and included and paper \<^verbatim>\<open>b\<close> rated 4.2 and excluded.
\<close>

definition example_eval :: "pyfloat \<Rightarrow> string \<Rightarrow> evaluation" where
  "example_eval score action =
     \<lparr> relevance_score = JFloat score, methodological_soundness = JFloat score,
       impact_score = JFloat score, redundancy_flag = JBool False, flags = JArr [],
       recommended_action = JStr (u action), rationale = JStr (u ''sound''),
       overall_score = score \<rparr>"

definition example_ledger :: ledger where
  "example_ledger =
     [u ''a'' \<mapsto> example_eval (Fin 4.8) ''include'',
      u ''b'' \<mapsto> example_eval (Fin 4.2) ''exclude'']"


definition example_state :: "paper list \<Rightarrow> ledger \<Rightarrow> state" where
  "example_state ps L = \<lparr> COLLECTED_PAPERS = ps, CRITIC_EVALUATIONS = L, files = Map.empty \<rparr>"

chapter \<open>Properties\<close>

section \<open>Literals\<close>

lemma u_Nil: "u [] = []"
  by (simp add: u_def)

lemma u_append: "u (a @ b) = u a @ u b"
  by (simp add: u_def)

lemma u_eq_Nil: "u s = [] \<longleftrightarrow> s = []"
  by (simp add: u_def)

section \<open>Ingestion of critic evaluations\<close>

lemma converts_iff: "converts lib v \<longleftrightarrow> (\<exists>f. num_of lib v = Inr f)"
  by (cases "num_of lib v") (simp_all add: converts_def)

lemma well_formed_iff: "well_formed lib x \<longleftrightarrow> (\<exists>kv. evaluate_item lib x = Inr kv)"
  unfolding well_formed_def evaluate_item_def py_mul_def converts_iff
  by (cases x) (auto split: json.splits sum.splits)




lemma evaluate_loop_origin:
  "evaluate_loop lib L n xs = (L', r) \<Longrightarrow> L' k = Some e \<Longrightarrow>
   L k = Some e \<or> (\<exists>x \<in> set xs. evaluate_item lib x = Inr (k, e))"
proof (induction xs arbitrary: L n)
  case Nil
  then show ?case by simp
next
  case (Cons x xs)
  show ?case
  proof (cases "evaluate_item lib x")
    case (Inl err)
    with Cons.prems show ?thesis by simp
  next
    case (Inr kv)
    obtain k0 v0 where kv: "kv = (k0, v0)" by (cases kv)
    from Cons.prems(1) Inr kv
    have step: "evaluate_loop lib (L(k0 \<mapsto> v0)) (Suc n) xs = (L', r)" by simp
    from Cons.IH[OF step Cons.prems(2)]
    show ?thesis using Inr kv by (auto split: if_splits)
  qed
qed

lemma evaluate_loop_all:
  "\<forall>x \<in> set xs. well_formed lib x \<Longrightarrow>
   evaluate_loop lib L n xs = (fold (ingest_one lib) xs L, Inr (n + length xs))"
proof (induction xs arbitrary: L n)
  case Nil
  then show ?case by simp
next
  case (Cons x xs)
  then obtain k v where kv: "evaluate_item lib x = Inr (k, v)"
    by (auto simp: well_formed_iff)
  with Cons show ?case by (simp add: ingest_one_def)
qed

lemma evaluate_loop_stop:
  "\<forall>x \<in> set pre. well_formed lib x \<Longrightarrow> evaluate_item lib bad = Inl err \<Longrightarrow>
   evaluate_loop lib L n (pre @ bad # post) = (fold (ingest_one lib) pre L, Inl err)"
proof (induction pre arbitrary: L n)
  case Nil
  then show ?case by simp
next
  case (Cons x xs)
  then obtain k v where kv: "evaluate_item lib x = Inr (k, v)"
    by (auto simp: well_formed_iff)
  with Cons show ?case by (simp add: ingest_one_def)
qed

lemma evaluate_item_composite: "evaluate_item lib x = Inr (k, e) \<Longrightarrow> composite_ok lib e"
  unfolding evaluate_item_def composite_ok_def py_mul_def
  by (auto split: sum.splits json.splits)

text \<open>A record that a call writes comes from an entry of the payload.\<close>

lemma evaluate_papers_written:
  assumes run: "evaluate_papers lib L decoded = (L', res)"
    and at: "L' k = Some e" and new: "L k \<noteq> Some e"
  shows "\<exists>evals items x. decoded = Some evals \<and> py_iter evals = Inr items \<and>
           x \<in> set items \<and> evaluate_item lib x = Inr (k, e)"
proof -
  from run new at obtain evals where d: "decoded = Some evals"
    by (cases decoded) (auto simp: evaluate_papers_def)
  from run new at d obtain items where it: "py_iter evals = Inr items"
    by (cases "py_iter evals") (auto simp: evaluate_papers_def)
  obtain L2 r2 where lp: "evaluate_loop lib L 0 items = (L2, r2)"
    by (cases "evaluate_loop lib L 0 items")
  with run d it have "L2 = L'" by (auto simp: evaluate_papers_def split: sum.splits)
  with lp have "evaluate_loop lib L 0 items = (L', r2)" by simp
  from evaluate_loop_origin[OF this at] new obtain x where
    "x \<in> set items" "evaluate_item lib x = Inr (k, e)" by auto
  with d it show ?thesis by blast
qed

text \<open>
  The ledger invariant: \<^verbatim>\<open>evaluate_papers\<close> keeps every record's composite equal
  to the weighted sum of its sub-scores, whether the call succeeds or not.
\<close>

lemma evaluate_papers_invariant:
  assumes inv: "\<forall>k e. L k = Some e \<longrightarrow> composite_ok lib e"
    and run: "evaluate_papers lib L decoded = (L', res)"
    and at: "L' k = Some e"
  shows "composite_ok lib e"
proof (cases "L k = Some e")
  case True
  with inv show ?thesis by blast
next
  case False
  from evaluate_papers_written[OF run at False] obtain x where
    "evaluate_item lib x = Inr (k, e)" by blast
  then show ?thesis by (rule evaluate_item_composite)
qed


lemma example_lib_sel:
  "fmul example_lib = exact_mul" "fadd example_lib = exact_add"
  "float_of_int example_lib = exact_float"
  "str_lower example_lib = map lower_cp" "isalnum example_lib = alnum_cp"
  "fmt_1f example_lib = (\<lambda>r. u ''0.0'')" "fmt_2f example_lib = (\<lambda>r. u ''0.00'')"
  "py_str example_lib = (\<lambda>v. u ''text'')" "today example_lib = u ''January 10, 2026''"
  "markup_ok example_lib = (\<lambda>t. True)" "doc_build example_lib = (\<lambda>s. None)"
  by (simp_all add: example_lib_def)



text \<open>
  Claim C2, as stated, fails: of the three entries below the second is not a
  record. The call returns the error string, the first entry is in the ledger and
  the third, which is well formed, is not.
\<close>

theorem evaluate_papers_partial_counterexample:
  "fst (evaluate_papers example_lib Map.empty
          (Some (JArr [JObj [(u ''paper_title'', JStr (u ''a''))], JInt 5,
                       JObj [(u ''paper_title'', JStr (u ''b''))]]))) (u ''a'') \<noteq> None
   \<and> fst (evaluate_papers example_lib Map.empty
          (Some (JArr [JObj [(u ''paper_title'', JStr (u ''a''))], JInt 5,
                       JObj [(u ''paper_title'', JStr (u ''b''))]]))) (u ''b'') = None
   \<and> snd (evaluate_papers example_lib Map.empty
          (Some (JArr [JObj [(u ''paper_title'', JStr (u ''a''))], JInt 5,
                       JObj [(u ''paper_title'', JStr (u ''b''))]])))
       = Critic_Error AttributeError"
proof -
  have key: "strip (map lower_cp (u ''a'')) = u ''a''"
    by (simp add: strip_def lower_cp_def isspace_def u_def)
  have ne: "u ''a'' \<noteq> u ''b''" by (simp add: u_def)
  have gets: "dict_get [(u ''paper_title'', JStr (u ''a''))] (u ''paper_title'') (JStr [])
      = JStr (u ''a'')"
    "dict_get [(u ''paper_title'', JStr (u ''a''))] (u ''relevance_score'') (JFloat (Fin 3))
      = JFloat (Fin 3)"
    "dict_get [(u ''paper_title'', JStr (u ''a''))] (u ''methodological_soundness'')
       (JFloat (Fin 3)) = JFloat (Fin 3)"
    "dict_get [(u ''paper_title'', JStr (u ''a''))] (u ''impact_score'') (JFloat (Fin 3))
      = JFloat (Fin 3)"
    by (simp_all add: dict_get_def u_def)
  have item: "\<exists>e. evaluate_item example_lib (JObj [(u ''paper_title'', JStr (u ''a''))])
      = Inr (u ''a'', e)"
    unfolding evaluate_item_def py_mul_def
    by (simp add: gets example_lib_sel exact_float_def key del: map_of.simps)
  then obtain e where e: "evaluate_item example_lib (JObj [(u ''paper_title'', JStr (u ''a''))])
      = Inr (u ''a'', e)" ..
  have five: "evaluate_item example_lib (JInt 5) = Inl AttributeError"
    by (simp add: evaluate_item_def)
  show ?thesis
    by (simp add: evaluate_papers_def e five ne[symmetric])
qed

text \<open>
  Claim C2, amended. A payload that does not decode, or decodes to a value that
  cannot be iterated, gives an error result and leaves the ledger as it was. The
  entries are ingested in order; when all are well formed all are ingested and
  counted; the first entry that is not well formed gives an error result, the
  entries before it stay ingested and nothing after it is. An entry with no key at
  all is well formed and gets every default.
\<close>

theorem evaluate_papers_stops_at_first_error:
  "evaluate_papers lib L None = (L, Critic_Invalid_JSON)
   \<and> (py_iter evals1 = Inl err1 \<longrightarrow>
        evaluate_papers lib L (Some evals1) = (L, Critic_Error err1))
   \<and> (py_iter evals2 = Inr items \<longrightarrow> (\<forall>x \<in> set items. well_formed lib x) \<longrightarrow>
        evaluate_papers lib L (Some evals2)
          = (ingest lib items L, Critic_Success (length items)))
   \<and> (py_iter evals3 = Inr (pre @ bad # post) \<longrightarrow> (\<forall>x \<in> set pre. well_formed lib x) \<longrightarrow>
        \<not> well_formed lib bad \<longrightarrow>
        (\<exists>err. evaluate_item lib bad = Inl err \<and>
           evaluate_papers lib L (Some evals3) = (ingest lib pre L, Critic_Error err)))
   \<and> evaluate_item lib (JObj []) = Inr (strip (str_lower lib []),
        \<lparr> relevance_score = JFloat (Fin 3.0), methodological_soundness = JFloat (Fin 3.0),
          impact_score = JFloat (Fin 3.0), redundancy_flag = JBool False, flags = JArr [],
          recommended_action = JStr (u ''include''), rationale = JStr [],
          overall_score
            = fadd lib (fadd lib (fmul lib (Fin 3.0) float_0_4) (fmul lib (Fin 3.0) float_0_3))
                (fmul lib (Fin 3.0) float_0_3) \<rparr>)"
proof (intro conjI impI)
  show "evaluate_papers lib L None = (L, Critic_Invalid_JSON)"
    by (simp add: evaluate_papers_def)
next
  assume "py_iter evals1 = Inl err1"
  then show "evaluate_papers lib L (Some evals1) = (L, Critic_Error err1)"
    by (simp add: evaluate_papers_def)
next
  assume "py_iter evals2 = Inr items" "\<forall>x \<in> set items. well_formed lib x"
  then show "evaluate_papers lib L (Some evals2)
      = (ingest lib items L, Critic_Success (length items))"
    by (simp add: evaluate_papers_def evaluate_loop_all ingest_def)
next
  assume it: "py_iter evals3 = Inr (pre @ bad # post)"
    and pre: "\<forall>x \<in> set pre. well_formed lib x"
    and bad: "\<not> well_formed lib bad"
  from bad obtain err where e: "evaluate_item lib bad = Inl err"
    by (cases "evaluate_item lib bad") (auto simp: well_formed_iff)
  from evaluate_loop_stop[OF pre e, of L 0 post] it
  have "evaluate_papers lib L (Some evals3) = (ingest lib pre L, Critic_Error err)"
    by (simp add: evaluate_papers_def ingest_def)
  with e show "\<exists>err. evaluate_item lib bad = Inl err \<and>
           evaluate_papers lib L (Some evals3) = (ingest lib pre L, Critic_Error err)" by blast
next
  show "evaluate_item lib (JObj []) = Inr (strip (str_lower lib []),
        \<lparr> relevance_score = JFloat (Fin 3.0), methodological_soundness = JFloat (Fin 3.0),
          impact_score = JFloat (Fin 3.0), redundancy_flag = JBool False, flags = JArr [],
          recommended_action = JStr (u ''include''), rationale = JStr [],
          overall_score
            = fadd lib (fadd lib (fmul lib (Fin 3.0) float_0_4) (fmul lib (Fin 3.0) float_0_3))
                (fmul lib (Fin 3.0) float_0_3) \<rparr>)"
    by (simp add: evaluate_item_def dict_get_def py_mul_def)
qed

theorem evaluate_papers_stops_at_first_error_witness:
  "evaluate_papers example_lib Map.empty (Some (JInt 7)) = (Map.empty, Critic_Error TypeError)
   \<and> snd (evaluate_papers example_lib Map.empty
        (Some (JArr [JObj [(u ''paper_title'', JStr (u ''a''))],
                     JObj [(u ''paper_title'', JStr (u ''b''))]])))
       = Critic_Success 2
   \<and> evaluate_papers example_lib Map.empty
        (Some (JArr [JObj [(u ''paper_title'', JStr (u ''a''))],
                     JObj [(u ''relevance_score'', JInt too_big)],
                     JObj [(u ''paper_title'', JStr (u ''b''))]]))
       = (ingest example_lib [JObj [(u ''paper_title'', JStr (u ''a''))]] Map.empty,
          Critic_Error OverflowError)"
proof -
  let ?a = "JObj [(u ''paper_title'', JStr (u ''a''))]"
  let ?b = "JObj [(u ''paper_title'', JStr (u ''b''))]"
  let ?big = "JObj [(u ''relevance_score'', JInt too_big)]"
  have wa: "well_formed example_lib ?a" and wb: "well_formed example_lib ?b"
    by (simp_all add: well_formed_def dict_get_def converts_def u_def)
  have big: "exact_float too_big = None"
    by (simp add: exact_float_def too_big_def)
  have gets: "dict_get [(u ''relevance_score'', JInt too_big)] (u ''paper_title'') (JStr [])
      = JStr []"
    "dict_get [(u ''relevance_score'', JInt too_big)] (u ''relevance_score'')
       (JFloat (Fin 3)) = JInt too_big"
    by (simp_all add: dict_get_def u_def)
  have wbig: "\<not> well_formed example_lib ?big"
    by (simp add: well_formed_def gets converts_def example_lib_sel big)
  have ebig: "evaluate_item example_lib ?big = Inl OverflowError"
    by (simp add: evaluate_item_def py_mul_def gets example_lib_sel big)
  have h1: "py_iter (JInt 7) = Inl TypeError" by simp
  have h2: "py_iter (JArr [?a, ?b]) = Inr [?a, ?b]" by simp
  have h2': "\<forall>x \<in> set [?a, ?b]. well_formed example_lib x" using wa wb by simp
  have h3: "py_iter (JArr [?a, ?big, ?b]) = Inr ([?a] @ ?big # [?b])" by simp
  have h3': "\<forall>x \<in> set [?a]. well_formed example_lib x" using wa by simp
  note inst = evaluate_papers_stops_at_first_error
    [of example_lib Map.empty "JInt 7" TypeError "JArr [?a, ?b]" "[?a, ?b]"
        "JArr [?a, ?big, ?b]" "[?a]" ?big "[?b]"]
  from inst h1 have c1: "evaluate_papers example_lib Map.empty (Some (JInt 7))
      = (Map.empty, Critic_Error TypeError)"
    by (rule_tac mp[OF conjunct1[OF conjunct2]])
  from inst h2 h2' have c2: "evaluate_papers example_lib Map.empty (Some (JArr [?a, ?b]))
      = (ingest example_lib [?a, ?b] Map.empty, Critic_Success (length [?a, ?b]))"
    by (rule_tac mp[OF mp[OF conjunct1[OF conjunct2[OF conjunct2]]]])
  from inst h3 h3' wbig have "\<exists>err. evaluate_item example_lib ?big = Inl err \<and>
      evaluate_papers example_lib Map.empty (Some (JArr [?a, ?big, ?b]))
        = (ingest example_lib [?a] Map.empty, Critic_Error err)"
    by (rule_tac mp[OF mp[OF mp[OF conjunct1[OF conjunct2[OF conjunct2[OF conjunct2]]]]]])
  with ebig have c3: "evaluate_papers example_lib Map.empty (Some (JArr [?a, ?big, ?b]))
        = (ingest example_lib [?a] Map.empty, Critic_Error OverflowError)"
    by auto
  from c1 c2 c3 show ?thesis by simp
qed

section \<open>Deduplication of the store\<close>












lemma all_less_Suc: "(\<forall>j < Suc i. P j) \<longleftrightarrow> P 0 \<and> (\<forall>j < i. P (Suc j))"
  by (metis less_Suc_eq_0_disj)

lemma upt_Cons_Suc: "[0..<length (p # ps)] = 0 # map Suc [0..<length ps]"
  by (simp add: upt_conv_Cons map_Suc_upt del: upt_Suc)









section \<open>The join of the report tools\<close>

lemma report_key_titled: "title p \<noteq> None \<Longrightarrow> report_key lib p = Inr (key_of lib p)"
  by (auto simp: report_key_def key_of_def)

lemma report_key_None: "title p = None \<Longrightarrow> report_key lib p = Inl AttributeError"
  by (simp add: report_key_def)

lemma joined_fst:
  "fst (joined lib L seen (p # ps))
   = (if key_of lib p \<notin> seen
      then attach L (key_of lib p) p # fst (joined lib L (insert (key_of lib p) seen) ps)
      else p # fst (joined lib L seen ps))"
  by (simp split: prod.splits)

lemma joined_snd:
  "snd (joined lib L seen (p # ps))
   = (if key_of lib p \<notin> seen
      then attach L (key_of lib p) p # snd (joined lib L (insert (key_of lib p) seen) ps)
      else snd (joined lib L seen ps))"
  by (simp split: prod.splits)

lemma join_loop_titled:
  "titled ps \<Longrightarrow>
   join_loop lib L seen ps = (fst (joined lib L seen ps), Inr (snd (joined lib L seen ps)))"
proof (induction ps arbitrary: seen)
  case Nil
  then show ?case by simp
next
  case (Cons p ps)
  from Cons.prems have t: "title p \<noteq> None" and ts: "titled ps"
    by (simp_all add: titled_def)
  note ih = Cons.IH[OF ts]
  show ?case
    by (simp add: report_key_titled[OF t] ih joined_fst joined_snd del: joined.simps(2))
qed

lemma join_loop_untitled:
  "\<not> titled ps \<Longrightarrow> snd (join_loop lib L seen ps) = Inl AttributeError"
proof (induction ps arbitrary: seen)
  case Nil
  then show ?case by (simp add: titled_def)
next
  case (Cons p ps)
  show ?case
  proof (cases "title p")
    case None
    then show ?thesis by (simp add: report_key_None)
  next
    case (Some t)
    with Cons.prems have "\<not> titled ps" by (simp add: titled_def)
    then have ih: "\<And>seen. snd (join_loop lib L seen ps) = Inl AttributeError"
      by (rule Cons.IH)
    from Some have k: "report_key lib p = Inr (key_of lib p)"
      by (simp add: report_key_titled)
    show ?thesis
    proof (cases "key_of lib p \<in> seen")
      case True
      with ih[of seen] show ?thesis
        by (cases "join_loop lib L seen ps") (simp add: k)
    next
      case False
      with ih[of "insert (key_of lib p) seen"] show ?thesis
        by (cases "join_loop lib L (insert (key_of lib p) seen) ps") (simp add: k)
    qed
  qed
qed

lemma first_key_seen_Suc:
  "first_key_seen lib seen (p # ps) (Suc i)
   = first_key_seen lib (insert (key_of lib p) seen) ps i"
  unfolding first_key_seen_def all_less_Suc by auto

lemma first_key_seen_known:
  "key_of lib p \<in> seen \<Longrightarrow>
   first_key_seen lib seen (p # ps) (Suc i) = first_key_seen lib seen ps i"
  by (simp add: first_key_seen_Suc insert_absorb)

lemma joined_unique:
  "snd (joined lib L seen ps)
   = map (\<lambda>i. attach L (key_of lib (ps ! i)) (ps ! i))
       (filter (first_key_seen lib seen ps) [0..<length ps])"
proof (induction ps arbitrary: seen)
  case Nil
  then show ?case by simp
next
  case (Cons p ps)
  let ?F = "first_key_seen lib seen (p # ps)"
  have hd: "?F 0 \<longleftrightarrow> key_of lib p \<notin> seen" by (simp add: first_key_seen_def)
  have split: "map (\<lambda>i. attach L (key_of lib ((p # ps) ! i)) ((p # ps) ! i))
        (filter ?F [0..<length (p # ps)])
      = (if key_of lib p \<notin> seen then [attach L (key_of lib p) p] else [])
        @ map (\<lambda>i. attach L (key_of lib (ps ! i)) (ps ! i))
            (filter (\<lambda>i. ?F (Suc i)) [0..<length ps])"
    unfolding upt_Cons_Suc by (simp add: hd filter_map comp_def)
  show ?case
  proof (cases "key_of lib p \<in> seen")
    case True
    then show ?thesis
      unfolding split using Cons.IH[of seen]
      by (simp add: first_key_seen_known joined_fst joined_snd del: joined.simps)
  next
    case False
    then show ?thesis
      unfolding split using Cons.IH[of "insert (key_of lib p) seen"]
      by (simp add: first_key_seen_Suc joined_fst joined_snd del: joined.simps)
  qed
qed



lemma strip_critic_attach: "strip_critic (attach L key p) = strip_critic p"
  by (simp add: strip_critic_def attach_def split: option.splits)

lemma join_loop_frame:
  "map strip_critic (fst (join_loop lib L seen ps)) = map strip_critic ps"
proof (induction ps arbitrary: seen)
  case Nil
  then show ?case by simp
next
  case (Cons p ps)
  show ?case
  proof (cases "report_key lib p")
    case (Inl e)
    then show ?thesis by simp
  next
    case (Inr key)
    show ?thesis
    proof (cases "key \<in> seen")
      case True
      with Inr Cons.IH[of seen] show ?thesis
        by (cases "join_loop lib L seen ps") simp
    next
      case False
      with Inr Cons.IH[of "insert key seen"] show ?thesis
        by (cases "join_loop lib L (insert key seen) ps")
          (auto simp: strip_critic_attach split: sum.splits)
    qed
  qed
qed

subsection \<open>Surrounding whitespace\<close>





section \<open>The sort of the report tools\<close>

lemma mset_insort_lt: "mset (insort_lt lt x ys) = add_mset x (mset ys)"
  by (induction ys) simp_all

lemma mset_foldr_insort_lt: "mset (foldr (insort_lt lt) xs []) = mset xs"
  by (induction xs) (simp_all add: mset_insort_lt)

lemma mset_py_sort: "mset (py_sort lt xs) = mset xs"
  by (simp add: py_sort_def mset_foldr_insort_lt)

lemma sort_reverse_mset: "mset (sort_reverse lt xs) = mset xs"
  by (simp add: sort_reverse_def mset_py_sort)

















lemma length_filter_not:
  "int (length xs) - int (length (filter P xs)) = int (length (filter (\<lambda>x. \<not> P x) xs))"
  using sum_length_filter_compl[of P xs] by simp

lemma compose_titled:
  "titled ps \<Longrightarrow>
   compose lib L ps
   = (fst (joined lib L {} ps),
      Inr \<lparr> unique_papers = sort_reverse key_lt (snd (joined lib L {} ps)),
            included_papers = filter included (sort_reverse key_lt (snd (joined lib L {} ps))),
            excluded_count =
              int (length (filter (\<lambda>p. \<not> included p)
                     (sort_reverse key_lt (snd (joined lib L {} ps))))) \<rparr>)"
  by (simp add: compose_def join_loop_titled Let_def length_filter_not)

lemma compose_untitled: "\<not> titled ps \<Longrightarrow> snd (compose lib L ps) = Inl AttributeError"
proof -
  assume "\<not> titled ps"
  then have "snd (join_loop lib L {} ps) = Inl AttributeError" by (rule join_loop_untitled)
  then show ?thesis
    by (cases "join_loop lib L {} ps") (simp add: compose_def)
qed

lemma compose_store: "fst (compose lib L ps) = fst (join_loop lib L {} ps)"
  by (cases "join_loop lib L {} ps") (auto simp: compose_def Let_def split: sum.splits)

section \<open>Join, rank and filter\<close>


lemma example_key:
  "key_of example_lib (example_paper t c) = strip (map lower_cp t)"
  by (simp add: key_of_def example_paper_def example_lib_sel)

lemma example_keys:
  "key_of example_lib (example_paper (u ''a'') c) = u ''a''"
  "key_of example_lib (example_paper (u ''b'') c) = u ''b''"
  "key_of example_lib (example_paper (u ''B '') c) = u ''b''"
  "key_of example_lib (example_paper (u ''c'') c) = u ''c''"
  by (simp_all add: example_key strip_def lower_cp_def isspace_def u_def)

lemma example_ledger_at:
  "example_ledger (u ''a'') = Some (example_eval (Fin 4.8) ''include'')"
  "example_ledger (u ''b'') = Some (example_eval (Fin 4.2) ''exclude'')"
  "example_ledger (u ''c'') = None"
  by (simp_all add: example_ledger_def u_def)

lemma example_titled: "title (example_paper t c) \<noteq> None"
  by (simp add: example_paper_def)




lemma compose_Inr:
  assumes "snd (compose lib L ps) = Inr c"
  shows "titled ps"
    and "snd (join_loop lib L {} ps) = Inr (snd (joined lib L {} ps))"
    and "unique_papers c = sort_reverse key_lt (snd (joined lib L {} ps))"
    and "included_papers c = filter included (unique_papers c)"
    and "excluded_count c = int (length (filter (\<lambda>p. \<not> included p) (unique_papers c)))"
proof -
  show t: "titled ps"
  proof (rule ccontr)
    assume "\<not> titled ps"
    then have "snd (compose lib L ps) = Inl AttributeError" by (rule compose_untitled)
    with assms show False by simp
  qed
  show "snd (join_loop lib L {} ps) = Inr (snd (joined lib L {} ps))"
    by (simp add: join_loop_titled[OF t])
  from assms have c: "c = \<lparr> unique_papers = sort_reverse key_lt (snd (joined lib L {} ps)),
            included_papers = filter included (sort_reverse key_lt (snd (joined lib L {} ps))),
            excluded_count =
              int (length (filter (\<lambda>p. \<not> included p)
                     (sort_reverse key_lt (snd (joined lib L {} ps))))) \<rparr>"
    by (simp add: compose_titled[OF t])
  show "unique_papers c = sort_reverse key_lt (snd (joined lib L {} ps))"
    by (simp add: c)
  show "included_papers c = filter included (unique_papers c)"
    by (simp add: c)
  show "excluded_count c = int (length (filter (\<lambda>p. \<not> included p) (unique_papers c)))"
    by (simp add: c)
qed

lemma example_paper_sel:
  "title (example_paper t c) = Some t" "citation_count (example_paper t c) = c"
  "critic_evaluation (example_paper t c) = None"
  by (simp_all add: example_paper_def)

lemma example_attach:
  "attach example_ledger (u ''a'') (example_paper (u ''a'') 0)
      = (example_paper (u ''a'') 0)
          \<lparr> critic_evaluation := Some (example_eval (Fin 4.8) ''include''),
            critic_rank := Some (Fin 4.8), critic_action := Some (JStr (u ''include'')) \<rparr>"
  "attach example_ledger (u ''b'') (example_paper (u ''B '') 9)
      = (example_paper (u ''B '') 9)
          \<lparr> critic_evaluation := Some (example_eval (Fin 4.2) ''exclude''),
            critic_rank := Some (Fin 4.2), critic_action := Some (JStr (u ''exclude'')) \<rparr>"
  "attach example_ledger (u ''c'') (example_paper (u ''c'') 7)
      = (example_paper (u ''c'') 7)
          \<lparr> critic_rank := Some (Fin 3.0), critic_action := Some (JStr (u ''include'')) \<rparr>"
  by (simp_all add: attach_def example_ledger_at example_eval_def)

lemma example_sort_keys:
  "sort_key_of (attach example_ledger (u ''a'') (example_paper (u ''a'') 0)) = (Fin 4.8, 0)"
  "sort_key_of (attach example_ledger (u ''b'') (example_paper (u ''B '') 9)) = (Fin 4.2, 9)"
  "sort_key_of (attach example_ledger (u ''c'') (example_paper (u ''c'') 7)) = (Fin 3.0, 7)"
  by (simp_all add: example_attach sort_key_of_def example_paper_sel)

lemma example_included:
  "included (attach example_ledger (u ''a'') (example_paper (u ''a'') 0))"
  "\<not> included (attach example_ledger (u ''b'') (example_paper (u ''B '') 9))"
  "included (attach example_ledger (u ''c'') (example_paper (u ''c'') 7))"
  by (simp_all only: example_attach included_def) (simp_all add: u_def)

lemma example_join:
  "join_loop example_lib example_ledger {}
      [example_paper (u ''c'') 7, example_paper (u ''B '') 9, example_paper (u ''a'') 0]
    = ([attach example_ledger (u ''c'') (example_paper (u ''c'') 7),
        attach example_ledger (u ''b'') (example_paper (u ''B '') 9),
        attach example_ledger (u ''a'') (example_paper (u ''a'') 0)],
       Inr [attach example_ledger (u ''c'') (example_paper (u ''c'') 7),
        attach example_ledger (u ''b'') (example_paper (u ''B '') 9),
        attach example_ledger (u ''a'') (example_paper (u ''a'') 0)])"
proof -
  have k: "report_key example_lib (example_paper (u ''c'') 7) = Inr (u ''c'')"
    "report_key example_lib (example_paper (u ''B '') 9) = Inr (u ''b'')"
    "report_key example_lib (example_paper (u ''a'') 0) = Inr (u ''a'')"
    by (simp_all add: report_key_titled example_titled example_keys)
  have ne: "u ''b'' \<noteq> u ''c''" "u ''a'' \<noteq> u ''b''" "u ''a'' \<noteq> u ''c''"
    by (simp_all add: u_def)
  show ?thesis by (simp add: k ne)
qed

lemma example_sort:
  "sort_reverse key_lt
       [attach example_ledger (u ''c'') (example_paper (u ''c'') 7),
        attach example_ledger (u ''b'') (example_paper (u ''B '') 9),
        attach example_ledger (u ''a'') (example_paper (u ''a'') 0)]
    = [attach example_ledger (u ''a'') (example_paper (u ''a'') 0),
       attach example_ledger (u ''b'') (example_paper (u ''B '') 9),
       attach example_ledger (u ''c'') (example_paper (u ''c'') 7)]"
  by (simp add: sort_reverse_def py_sort_def key_lt_def example_sort_keys tuple_lt_def
      feq_def flt_def)

lemma example_compose:
  "compose example_lib example_ledger
     [example_paper (u ''c'') 7, example_paper (u ''B '') 9, example_paper (u ''a'') 0]
   = ([attach example_ledger (u ''c'') (example_paper (u ''c'') 7),
       attach example_ledger (u ''b'') (example_paper (u ''B '') 9),
       attach example_ledger (u ''a'') (example_paper (u ''a'') 0)],
      Inr \<lparr> unique_papers =
              [attach example_ledger (u ''a'') (example_paper (u ''a'') 0),
               attach example_ledger (u ''b'') (example_paper (u ''B '') 9),
               attach example_ledger (u ''c'') (example_paper (u ''c'') 7)],
            included_papers =
              [attach example_ledger (u ''a'') (example_paper (u ''a'') 0),
               attach example_ledger (u ''c'') (example_paper (u ''c'') 7)],
            excluded_count = 1 \<rparr>)"
  by (simp only: compose_def example_join prod.case sum.case Let_def example_sort)
     (simp add: example_included)

lemma str_nat_digits:
  "str_nat 0 = u ''0''" "str_nat (Suc 0) = u ''1''" "str_nat (Suc (Suc 0)) = u ''2''"
  by (simp_all add: str_nat.simps digit_char_def u_def)










section \<open>What a report changes\<close>

text \<open>
  Claim C10. A report tool, PDF or HTML, returns or raises with the ledger as it
  was and with a store that has the same papers in the same order, equal to the old
  ones in every field but the three \<^verbatim>\<open>critic_\<close> fields.
\<close>

theorem report_frame:
  "CRITIC_EVALUATIONS (fst (generate_report lib executive_summary subject s))
     = CRITIC_EVALUATIONS s
   \<and> map strip_critic (COLLECTED_PAPERS (fst (generate_report lib executive_summary subject s)))
     = map strip_critic (COLLECTED_PAPERS s)
   \<and> CRITIC_EVALUATIONS
       (fst (generate_html_report lib generate_html executive_summary subject s))
     = CRITIC_EVALUATIONS s
   \<and> map strip_critic
         (COLLECTED_PAPERS
            (fst (generate_html_report lib generate_html executive_summary subject s)))
     = map strip_critic (COLLECTED_PAPERS s)"
proof -
  obtain store r where c: "compose lib (CRITIC_EVALUATIONS s) (COLLECTED_PAPERS s) = (store, r)"
    by (cases "compose lib (CRITIC_EVALUATIONS s) (COLLECTED_PAPERS s)")
  then have "store = fst (join_loop lib (CRITIC_EVALUATIONS s) {} (COLLECTED_PAPERS s))"
    using compose_store[of lib "CRITIC_EVALUATIONS s" "COLLECTED_PAPERS s"] by simp
  then have f: "map strip_critic store = map strip_critic (COLLECTED_PAPERS s)"
    by (simp add: join_loop_frame)
  show ?thesis
    by (simp add: generate_report_def generate_html_report_def Let_def c f
        split: sum.splits option.splits)
qed

text \<open>
  Claim C7. On an empty store both report tools return the string
  \<^verbatim>\<open>Error: Collection is empty.\<close>: they do not raise, and the store, the ledger
  and the files are as before.
\<close>

theorem report_empty_collection:
  "COLLECTED_PAPERS s = [] \<Longrightarrow>
   generate_report lib executive_summary subject s
     = (s, Inr (u ''Error: Collection is empty.''))
   \<and> generate_html_report lib generate_html executive_summary subject s
       = (s, Inr (u ''Error: Collection is empty.''))"
  by (simp add: generate_report_def generate_html_report_def)

theorem report_empty_collection_witness:
  "generate_report example_lib (u ''summary'') (u ''subject'')
       (example_state [] example_ledger)
     = (example_state [] example_ledger, Inr (u ''Error: Collection is empty.''))
   \<and> generate_html_report example_lib example_html (u ''summary'') (u ''subject'')
         (example_state [] example_ledger)
     = (example_state [] example_ledger, Inr (u ''Error: Collection is empty.''))"
proof -
  have "COLLECTED_PAPERS (example_state [] example_ledger) = []"
    by (simp add: example_state_def)
  then show ?thesis by (rule report_empty_collection)
qed

section \<open>The snapshot for the critic\<close>

lemma split_acc_word:
  "\<forall>c \<in> set w. \<not> isspace c \<Longrightarrow> split_acc cur (w @ s) = split_acc (cur @ w) s"
  by (induction w arbitrary: cur) simp_all

lemma isspace_space: "isspace 32"
  by (simp add: isspace_def)

lemma u_space: "u '' '' = [32]"
  by (simp add: u_def)

lemma split_acc_join:
  "ws \<noteq> [] \<Longrightarrow> \<forall>w \<in> set ws. w \<noteq> [] \<and> (\<forall>c \<in> set w. \<not> isspace c) \<Longrightarrow>
   \<forall>c \<in> set x. \<not> isspace c \<Longrightarrow>
   split_acc [] (join (u '' '') ws @ x) = butlast ws @ [last ws @ x]"
proof (induction ws rule: list_nonempty_induct)
  case (single w)
  then have "split_acc [] ((w @ x) @ []) = split_acc ([] @ (w @ x)) []"
    by (intro split_acc_word) auto
  with single show ?case by simp
next
  case (cons w ws)
  obtain y ys where ws: "ws = y # ys" using cons.hyps by (cases ws) auto
  have w: "\<forall>c \<in> set w. \<not> isspace c" "w \<noteq> []" using cons.prems by auto
  have "split_acc [] (w @ (32 # (join (u '' '') ws @ x)))
      = split_acc ([] @ w) (32 # (join (u '' '') ws @ x))"
    using w(1) by (rule split_acc_word)
  also have "\<dots> = w # split_acc [] (join (u '' '') ws @ x)"
    using w(2) by (simp add: isspace_space)
  also have "split_acc [] (join (u '' '') ws @ x) = butlast ws @ [last ws @ x]"
    using cons by simp
  finally show ?case using cons.hyps by (simp add: ws u_space)
qed

lemma split_join:
  assumes "\<forall>w \<in> set ws. w \<noteq> [] \<and> (\<forall>c \<in> set w. \<not> isspace c)"
  shows "split (join (u '' '') ws) = ws"
proof (cases "ws = []")
  case True
  then show ?thesis by (simp add: split_def)
next
  case False
  have "\<forall>c \<in> set ([]::ustr). \<not> isspace c" by simp
  from split_acc_join[OF False assms this] False show ?thesis
    by (simp add: split_def)
qed

lemma split_acc_nonspace:
  "\<forall>c \<in> set cur. \<not> isspace c \<Longrightarrow> w \<in> set (split_acc cur s) \<Longrightarrow>
   w \<noteq> [] \<and> (\<forall>c \<in> set w. \<not> isspace c)"
proof (induction s arbitrary: cur)
  case Nil
  then show ?case by (auto split: if_splits)
next
  case (Cons a s)
  show ?case
  proof (cases "isspace a")
    case True
    have e: "\<forall>c \<in> set ([]::ustr). \<not> isspace c" by simp
    from Cons.prems(2) True have "w = cur \<and> cur \<noteq> [] \<or> w \<in> set (split_acc [] s)"
      by (auto split: if_splits)
    then show ?thesis using Cons.IH[OF e] Cons.prems(1) by auto
  next
    case False
    with Cons.prems(1) have n: "\<forall>c \<in> set (cur @ [a]). \<not> isspace c" by simp
    from Cons.prems(2) False have "w \<in> set (split_acc (cur @ [a]) s)" by simp
    then show ?thesis by (rule Cons.IH[OF n])
  qed
qed

lemma split_words:
  "\<forall>w \<in> set (split s). w \<noteq> [] \<and> (\<forall>c \<in> set w. \<not> isspace c)"
  unfolding split_def using split_acc_nonspace[of "[]" _ s] by simp

lemma split_acc_concat:
  "concat (split_acc cur s) = cur @ filter (\<lambda>c. \<not> isspace c) s"
  by (induction s arbitrary: cur) simp_all

lemma split_concat: "concat (split s) = filter (\<lambda>c. \<not> isspace c) s"
  by (simp add: split_def split_acc_concat)

lemma placeholder_words: "length (split placeholder) = 3"
  by (simp add: split_def placeholder_def isspace_def u_def)

lemma truncate_abstract_short:
  "text = [] \<or> text = placeholder \<or> length (split text) \<le> n \<Longrightarrow>
   truncate_abstract text n = text"
  by (auto simp: truncate_abstract_def Let_def)

lemma truncate_abstract_long:
  assumes "text \<noteq> placeholder" and "length (split text) > n"
  shows "truncate_abstract text n = join (u '' '') (take n (split text)) @ u ''...''"
proof -
  from assms(2) have "text \<noteq> []" by (auto simp: split_def)
  with assms show ?thesis by (simp add: truncate_abstract_def Let_def)
qed

lemma split_truncated:
  assumes "0 < n" and "length (split text) > n"
  shows "split (join (u '' '') (take n (split text)) @ u ''...'')
         = take (n - 1) (split text) @ [split text ! (n - 1) @ u ''...'']"
proof -
  let ?ws = "take n (split text)"
  have ne: "?ws \<noteq> []" using assms by auto
  have words: "\<forall>w \<in> set ?ws. w \<noteq> [] \<and> (\<forall>c \<in> set w. \<not> isspace c)"
    using split_words[of "text"] by (meson in_set_takeD)
  have dots: "\<forall>c \<in> set (u ''...''). \<not> isspace c" by (simp add: isspace_def u_def)
  have "split (join (u '' '') ?ws @ u ''...'') = butlast ?ws @ [last ?ws @ u ''...'']"
    using split_acc_join[OF ne words dots] unfolding split_def .
  moreover have "butlast ?ws = take (n - 1) (split text)"
    using assms by (simp add: butlast_take)
  moreover have "last ?ws = split text ! (n - 1)"
    using assms ne by (simp add: last_conv_nth)
  ultimately show ?thesis by simp
qed

lemma truncate_abstract_words:
  assumes "3 \<le> n"
  shows "length (split (truncate_abstract text n)) \<le> n"
proof (cases "text = [] \<or> text = placeholder")
  case True
  then show ?thesis
    using assms placeholder_words by (auto simp: truncate_abstract_def split_def)
next
  case False
  show ?thesis
  proof (cases "length (split text) > n")
    case long: True
    from assms have "0 < n" by simp
    from split_truncated[OF this long] assms long
    have "length (split (join (u '' '') (take n (split text)) @ u ''...'')) = n"
      by simp
    with False long show ?thesis by (simp add: truncate_abstract_def Let_def)
  next
    case short: False
    with False show ?thesis by (simp add: truncate_abstract_def Let_def)
  qed
qed

text \<open>
  Claim C6. On an empty store \<^verbatim>\<open>get_papers_for_evaluation\<close> gives a dict whose
  only key is \<^verbatim>\<open>error\<close>. On any other store it gives \<^verbatim>\<open>total_papers\<close>, the number
  of papers, and under \<^verbatim>\<open>papers\<close> one entry per paper, in order, with the title
  (\<^verbatim>\<open>null\<close> for a title \<^verbatim>\<open>None\<close>), the first three authors at most, the year, the
  preview of the abstract, the source, the citation count and the venue. The
  preview is the abstract itself when that is empty, the placeholder, or of at most
  150 words; otherwise it is the first 150 words joined by single spaces and
  followed by three dots, so that it splits into these words, the last one with the
  dots. In every case it has at most 150 words. A word is a maximal run of
  characters that are not whitespace: the words of a text are not empty and hold no
  whitespace, together they are the text without its whitespace, and words joined
  by single spaces split into themselves.
\<close>

theorem get_papers_for_evaluation_snapshot:
  "get_papers_for_evaluation []
     = JObj [(u ''error'', JStr (u ''No papers available for evaluation''))]
   \<and> (ps \<noteq> [] \<longrightarrow>
        get_papers_for_evaluation ps
          = JObj [(u ''total_papers'', JInt (int (length ps))),
                  (u ''papers'', JArr (map paper_for_eval ps))])
   \<and> (\<exists>shown preview.
        paper_for_eval p
          = JObj [(u ''title'', (case title p of None \<Rightarrow> JNull | Some t \<Rightarrow> JStr t)),
                  (u ''authors'', JArr shown),
                  (u ''pub_year'', pub_year p),
                  (u ''abstract'', JStr preview),
                  (u ''source'', JStr (source p)),
                  (u ''citation_count'', JInt (citation_count p)),
                  (u ''venue'', venue p)]
        \<and> shown = take 3 (authors p) \<and> length shown \<le> 3
        \<and> preview = truncate_abstract (abstract p) 150
        \<and> length (split preview) \<le> 150
        \<and> (abstract p = [] \<or> abstract p = placeholder \<or> length (split (abstract p)) \<le> 150
             \<longrightarrow> preview = abstract p)
        \<and> (abstract p \<noteq> placeholder \<and> length (split (abstract p)) > 150
             \<longrightarrow> preview = join (u '' '') (take 150 (split (abstract p))) @ u ''...''
                 \<and> split preview
                     = take 149 (split (abstract p)) @ [split (abstract p) ! 149 @ u ''...'']))
   \<and> (\<forall>w \<in> set (split s). w \<noteq> [] \<and> (\<forall>c \<in> set w. \<not> isspace c))
   \<and> concat (split s) = filter (\<lambda>c. \<not> isspace c) s
   \<and> ((\<forall>w \<in> set ws. w \<noteq> [] \<and> (\<forall>c \<in> set w. \<not> isspace c)) \<longrightarrow>
        split (join (u '' '') ws) = ws)"
proof (intro conjI impI)
  show "get_papers_for_evaluation []
      = JObj [(u ''error'', JStr (u ''No papers available for evaluation''))]"
    by (simp add: get_papers_for_evaluation_def)
next
  assume "ps \<noteq> []"
  then show "get_papers_for_evaluation ps
          = JObj [(u ''total_papers'', JInt (int (length ps))),
                  (u ''papers'', JArr (map paper_for_eval ps))]"
    by (simp add: get_papers_for_evaluation_def Let_def)
next
  let ?preview = "truncate_abstract (abstract p) 150"
  have w: "length (split ?preview) \<le> 150"
    by (rule truncate_abstract_words) simp
  have short: "abstract p = [] \<or> abstract p = placeholder \<or> length (split (abstract p)) \<le> 150
      \<longrightarrow> ?preview = abstract p"
    using truncate_abstract_short[of "abstract p" 150] by blast
  have long: "abstract p \<noteq> placeholder \<and> length (split (abstract p)) > 150
      \<longrightarrow> ?preview = join (u '' '') (take 150 (split (abstract p))) @ u ''...''
          \<and> split ?preview
              = take 149 (split (abstract p)) @ [split (abstract p) ! 149 @ u ''...'']"
  proof (intro impI)
    assume a: "abstract p \<noteq> placeholder \<and> length (split (abstract p)) > 150"
    then have t: "?preview = join (u '' '') (take 150 (split (abstract p))) @ u ''...''"
      by (simp add: truncate_abstract_long)
    have "split (join (u '' '') (take 150 (split (abstract p))) @ u ''...'')
        = take (150 - 1) (split (abstract p)) @ [split (abstract p) ! (150 - 1) @ u ''...'']"
      using a by (intro split_truncated) simp_all
    with t show "?preview = join (u '' '') (take 150 (split (abstract p))) @ u ''...''
          \<and> split ?preview
              = take 149 (split (abstract p)) @ [split (abstract p) ! 149 @ u ''...'']"
      by simp
  qed
  have pfe: "paper_for_eval p
          = JObj [(u ''title'', (case title p of None \<Rightarrow> JNull | Some t \<Rightarrow> JStr t)),
                  (u ''authors'', JArr (take 3 (authors p))),
                  (u ''pub_year'', pub_year p),
                  (u ''abstract'', JStr ?preview),
                  (u ''source'', JStr (source p)),
                  (u ''citation_count'', JInt (citation_count p)),
                  (u ''venue'', venue p)]"
    by (simp add: paper_for_eval_def)
  show "\<exists>shown preview.
        paper_for_eval p
          = JObj [(u ''title'', (case title p of None \<Rightarrow> JNull | Some t \<Rightarrow> JStr t)),
                  (u ''authors'', JArr shown),
                  (u ''pub_year'', pub_year p),
                  (u ''abstract'', JStr preview),
                  (u ''source'', JStr (source p)),
                  (u ''citation_count'', JInt (citation_count p)),
                  (u ''venue'', venue p)]
        \<and> shown = take 3 (authors p) \<and> length shown \<le> 3
        \<and> preview = truncate_abstract (abstract p) 150
        \<and> length (split preview) \<le> 150
        \<and> (abstract p = [] \<or> abstract p = placeholder \<or> length (split (abstract p)) \<le> 150
             \<longrightarrow> preview = abstract p)
        \<and> (abstract p \<noteq> placeholder \<and> length (split (abstract p)) > 150
             \<longrightarrow> preview = join (u '' '') (take 150 (split (abstract p))) @ u ''...''
                 \<and> split preview
                     = take 149 (split (abstract p)) @ [split (abstract p) ! 149 @ u ''...''])"
  proof (intro exI conjI)
    show "paper_for_eval p
          = JObj [(u ''title'', (case title p of None \<Rightarrow> JNull | Some t \<Rightarrow> JStr t)),
                  (u ''authors'', JArr (take 3 (authors p))),
                  (u ''pub_year'', pub_year p),
                  (u ''abstract'', JStr ?preview),
                  (u ''source'', JStr (source p)),
                  (u ''citation_count'', JInt (citation_count p)),
                  (u ''venue'', venue p)]"
      by (rule pfe)
    show "take 3 (authors p) = take 3 (authors p)" by (rule refl)
    show "length (take 3 (authors p)) \<le> 3" by simp
    show "?preview = truncate_abstract (abstract p) 150" by (rule refl)
    show "length (split ?preview) \<le> 150" by (rule w)
    show "abstract p = [] \<or> abstract p = placeholder \<or> length (split (abstract p)) \<le> 150
      \<longrightarrow> ?preview = abstract p"
      by (rule short)
    show "abstract p \<noteq> placeholder \<and> length (split (abstract p)) > 150
      \<longrightarrow> ?preview = join (u '' '') (take 150 (split (abstract p))) @ u ''...''
          \<and> split ?preview
              = take 149 (split (abstract p)) @ [split (abstract p) ! 149 @ u ''...'']"
      by (rule long)
  qed
next
  show "\<forall>w \<in> set (split s). w \<noteq> [] \<and> (\<forall>c \<in> set w. \<not> isspace c)"
    by (rule split_words)
next
  show "concat (split s) = filter (\<lambda>c. \<not> isspace c) s"
    by (rule split_concat)
next
  assume "\<forall>w \<in> set ws. w \<noteq> [] \<and> (\<forall>c \<in> set w. \<not> isspace c)"
  then show "split (join (u '' '') ws) = ws" by (rule split_join)
qed

theorem get_papers_for_evaluation_snapshot_witness:
  "get_papers_for_evaluation
     [(example_paper (u ''a'') 5)
        \<lparr> authors := [JStr (u ''W''), JStr (u ''X''), JStr (u ''Y''), JStr (u ''Z'')],
          abstract := long_abstract \<rparr>,
      example_untitled 3]
   = JObj [(u ''total_papers'', JInt 2),
           (u ''papers'', JArr
              [JObj [(u ''title'', JStr (u ''a'')),
                     (u ''authors'', JArr [JStr (u ''W''), JStr (u ''X''), JStr (u ''Y'')]),
                     (u ''pub_year'', JInt 2024),
                     (u ''abstract'',
                        JStr (join (u '' '') (replicate 150 (u ''w'')) @ u ''...'')),
                     (u ''source'', JStr (u ''arXiv'')),
                     (u ''citation_count'', JInt 5),
                     (u ''venue'', JStr (u ''arXiv Preprint''))],
               JObj [(u ''title'', JNull),
                     (u ''authors'', JArr [JStr (u ''A. Author'')]),
                     (u ''pub_year'', JInt 2024),
                     (u ''abstract'', JStr (u ''No abstract available.'')),
                     (u ''source'', JStr (u ''OpenAlex'')),
                     (u ''citation_count'', JInt 3),
                     (u ''venue'', JStr (u ''Unknown''))]])]
   \<and> split (join (u '' '') (replicate 150 (u ''w'')) @ u ''...'')
     = replicate 149 (u ''w'') @ [u ''w...'']"
proof -
  let ?p1 = "(example_paper (u ''a'') 5)
        \<lparr> authors := [JStr (u ''W''), JStr (u ''X''), JStr (u ''Y''), JStr (u ''Z'')],
          abstract := long_abstract \<rparr>"
  let ?p2 = "example_untitled 3"
  let ?ps = "[?p1, ?p2]"
  let ?ws = "replicate 151 (u ''w'')"
  have ne: "?ps \<noteq> []" by simp
  have words: "\<forall>w \<in> set ?ws. w \<noteq> [] \<and> (\<forall>c \<in> set w. \<not> isspace c)"
    by (simp add: isspace_def u_def)
  note inst1 = get_papers_for_evaluation_snapshot
    [where ps = ?ps and p = ?p1 and s = long_abstract and ws = ?ws]
  note inst2 = get_papers_for_evaluation_snapshot
    [where ps = ?ps and p = ?p2 and s = long_abstract and ws = ?ws]
  note all = inst1[THEN conjunct2, THEN conjunct1, THEN mp, OF ne]
  note sj = inst1[THEN conjunct2, THEN conjunct2, THEN conjunct2, THEN conjunct2,
      THEN conjunct2, THEN mp, OF words]
  have a1: "abstract ?p1 = long_abstract" by simp
  have sp: "split long_abstract = ?ws" unfolding long_abstract_def by (rule sj)
  have len: "length (split (abstract ?p1)) > 150" by (simp only: a1 sp) simp
  have np: "abstract ?p1 \<noteq> placeholder"
  proof
    assume "abstract ?p1 = placeholder"
    then have "length (split (abstract ?p1)) = 3" by (simp only: placeholder_words)
    with len show False by simp
  qed
  from inst1[THEN conjunct2, THEN conjunct2, THEN conjunct1]
  obtain shown1 preview1 where
    e1: "paper_for_eval ?p1
          = JObj [(u ''title'', (case title ?p1 of None \<Rightarrow> JNull | Some t \<Rightarrow> JStr t)),
                  (u ''authors'', JArr shown1),
                  (u ''pub_year'', pub_year ?p1),
                  (u ''abstract'', JStr preview1),
                  (u ''source'', JStr (source ?p1)),
                  (u ''citation_count'', JInt (citation_count ?p1)),
                  (u ''venue'', venue ?p1)]"
    and s1: "shown1 = take 3 (authors ?p1)"
    and l1: "abstract ?p1 \<noteq> placeholder \<and> length (split (abstract ?p1)) > 150
             \<longrightarrow> preview1 = join (u '' '') (take 150 (split (abstract ?p1))) @ u ''...''
                 \<and> split preview1
                     = take 149 (split (abstract ?p1)) @ [split (abstract ?p1) ! 149 @ u ''...'']"
    by (elim exE conjE)
  from l1 np len
  have pv: "preview1 = join (u '' '') (take 150 (split (abstract ?p1))) @ u ''...''"
    and spv: "split preview1
        = take 149 (split (abstract ?p1)) @ [split (abstract ?p1) ! 149 @ u ''...'']"
    by blast+
  have pv': "preview1 = join (u '' '') (replicate 150 (u ''w'')) @ u ''...''"
    unfolding pv a1 sp by simp
  have spv': "split (join (u '' '') (replicate 150 (u ''w'')) @ u ''...'')
      = replicate 149 (u ''w'') @ [u ''w...'']"
    using spv unfolding pv' a1 sp by (simp add: u_def)
  have r1: "paper_for_eval ?p1
      = JObj [(u ''title'', JStr (u ''a'')),
              (u ''authors'', JArr [JStr (u ''W''), JStr (u ''X''), JStr (u ''Y'')]),
              (u ''pub_year'', JInt 2024),
              (u ''abstract'', JStr (join (u '' '') (replicate 150 (u ''w'')) @ u ''...'')),
              (u ''source'', JStr (u ''arXiv'')),
              (u ''citation_count'', JInt 5),
              (u ''venue'', JStr (u ''arXiv Preprint''))]"
    unfolding e1 s1 pv' by (simp add: example_paper_def)
  from inst2[THEN conjunct2, THEN conjunct2, THEN conjunct1]
  obtain shown2 preview2 where
    e2: "paper_for_eval ?p2
          = JObj [(u ''title'', (case title ?p2 of None \<Rightarrow> JNull | Some t \<Rightarrow> JStr t)),
                  (u ''authors'', JArr shown2),
                  (u ''pub_year'', pub_year ?p2),
                  (u ''abstract'', JStr preview2),
                  (u ''source'', JStr (source ?p2)),
                  (u ''citation_count'', JInt (citation_count ?p2)),
                  (u ''venue'', venue ?p2)]"
    and s2: "shown2 = take 3 (authors ?p2)"
    and l2: "abstract ?p2 = [] \<or> abstract ?p2 = placeholder
               \<or> length (split (abstract ?p2)) \<le> 150
             \<longrightarrow> preview2 = abstract ?p2"
    by (elim exE conjE)
  have "abstract ?p2 = placeholder" by (simp add: example_untitled_def placeholder_def)
  with l2 have pv2: "preview2 = abstract ?p2" by blast
  have r2: "paper_for_eval ?p2
      = JObj [(u ''title'', JNull),
              (u ''authors'', JArr [JStr (u ''A. Author'')]),
              (u ''pub_year'', JInt 2024),
              (u ''abstract'', JStr (u ''No abstract available.'')),
              (u ''source'', JStr (u ''OpenAlex'')),
              (u ''citation_count'', JInt 3),
              (u ''venue'', JStr (u ''Unknown''))]"
    unfolding e2 s2 pv2 by (simp add: example_untitled_def)
  have "get_papers_for_evaluation ?ps
      = JObj [(u ''total_papers'', JInt 2), (u ''papers'', JArr [paper_for_eval ?p1,
          paper_for_eval ?p2])]"
    unfolding all by simp
  then show ?thesis unfolding r1 r2 using spv' by (rule conjI)
qed

section \<open>Markers and labels of the PDF report\<close>

lemma attach_rank_default:
  "\<exists>r. critic_rank (attach L key q) = Some r
       \<and> (critic_evaluation (attach L key q) = None \<longrightarrow> r = Fin 3.0)"
  by (simp add: attach_def split: option.splits)

lemma fge_mono: "fge r (Fin a) \<Longrightarrow> b \<le> a \<Longrightarrow> fge r (Fin b)"
  by (cases r) (auto simp: fge_def less_eq_prod_def)

lemma fge_45_40: "fge r (Fin 4.5) \<Longrightarrow> fge r (Fin 4.0)"
  by (erule fge_mono) simp

lemma not_fge_3: "\<not> fge (Fin 3) (Fin (9 / 2))" "\<not> fge (Fin 3) (Fin 4)"
  by (simp_all add: fge_def)

lemma label_space:
  "u '' <b>EXCEPTIONAL: '' = u '' '' @ u ''<b>EXCEPTIONAL: ''"
  "u '' <b>HIGHLY RATED: '' = u '' '' @ u ''<b>HIGHLY RATED: ''"
  by (simp_all add: u_def)

lemma attach_title: "title (attach L key q) = title q"
  by (simp add: attach_def split: option.splits)

lemma attach_found:
  "L key = Some e \<Longrightarrow>
   critic_evaluation (attach L key q) = Some e
   \<and> critic_rank (attach L key q) = Some (overall_score e)"
  by (simp add: attach_def)

lemma attach_not_found:
  "L key = None \<Longrightarrow>
   critic_evaluation (attach L key q) = critic_evaluation q
   \<and> critic_rank (attach L key q) = Some (Fin 3.0)"
  by (simp add: attach_def)

lemma key_of_attach: "key_of lib (attach L key q) = key_of lib q"
  by (simp add: key_of_def attach_title)

lemma included_is_attached:
  assumes "snd (compose lib L ps) = Inr c" and "p \<in> set (included_papers c)"
  shows "\<exists>q. q \<in> set ps \<and> title q \<noteq> None \<and> p = attach L (key_of lib q) q"
proof -
  note inv = compose_Inr[OF assms(1)]
  from assms(2) have "p \<in> set (unique_papers c)"
    by (simp add: inv(4))
  then have "p \<in># mset (unique_papers c)" by simp
  then have "p \<in> set (snd (joined lib L {} ps))"
    by (simp only: inv(3) sort_reverse_mset) simp
  then obtain i where i: "i < length ps" "p = attach L (key_of lib (ps ! i)) (ps ! i)"
    by (auto simp: joined_unique)
  from inv(1) i(1) have "title (ps ! i) \<noteq> None"
    by (simp add: titled_def list_all_length)
  with i show ?thesis by (metis nth_mem)
qed

text \<open>
  Claim C9, as stated, fails on the title line: an included paper rated 4.2 gets the
  label \<^verbatim>\<open>HIGHLY RATED\<close>, not \<^verbatim>\<open>EXCELLENT\<close>, and one rated 3.7 gets its number and
  no label, not \<^verbatim>\<open>GOOD\<close>.
\<close>

theorem title_line_label_counterexample:
  "snd (compose example_lib [u ''a'' \<mapsto> example_eval (Fin 4.2) ''include'']
          [example_paper (u ''a'') 0])
     = Inr \<lparr> unique_papers =
               [attach [u ''a'' \<mapsto> example_eval (Fin 4.2) ''include''] (u ''a'')
                  (example_paper (u ''a'') 0)],
             included_papers =
               [attach [u ''a'' \<mapsto> example_eval (Fin 4.2) ''include''] (u ''a'')
                  (example_paper (u ''a'') 0)],
             excluded_count = 0 \<rparr>
   \<and> title_text 1
       (attach [u ''a'' \<mapsto> example_eval (Fin 4.2) ''include''] (u ''a'')
          (example_paper (u ''a'') 0))
     = u ''<a name='' @ sq @ u ''paper1'' @ sq @ u ''/>'' @ star @ u '' <b>HIGHLY RATED: a</b>''
   \<and> snd (compose example_lib [u ''a'' \<mapsto> example_eval (Fin 3.7) ''include'']
          [example_paper (u ''a'') 0])
     = Inr \<lparr> unique_papers =
               [attach [u ''a'' \<mapsto> example_eval (Fin 3.7) ''include''] (u ''a'')
                  (example_paper (u ''a'') 0)],
             included_papers =
               [attach [u ''a'' \<mapsto> example_eval (Fin 3.7) ''include''] (u ''a'')
                  (example_paper (u ''a'') 0)],
             excluded_count = 0 \<rparr>
   \<and> title_text 1
       (attach [u ''a'' \<mapsto> example_eval (Fin 3.7) ''include''] (u ''a'')
          (example_paper (u ''a'') 0))
     = u ''<a name='' @ sq @ u ''paper1'' @ sq @ u ''/><b>1. a</b>''"
proof -
  have k: "report_key example_lib (example_paper (u ''a'') 0) = Inr (u ''a'')"
    by (simp add: report_key_titled example_titled example_keys)
  have t: "\<And>x. attach [u ''a'' \<mapsto> example_eval x ''include''] (u ''a'')
        (example_paper (u ''a'') 0)
      = (example_paper (u ''a'') 0)\<lparr> critic_evaluation := Some (example_eval x ''include''),
           critic_rank := Some x, critic_action := Some (JStr (u ''include'')) \<rparr>"
    by (simp add: attach_def example_eval_def)
  have inc: "\<And>x. included (attach [u ''a'' \<mapsto> example_eval x ''include''] (u ''a'')
        (example_paper (u ''a'') 0))"
    by (simp only: t included_def) (simp add: u_def)
  have c: "\<And>x. snd (compose example_lib [u ''a'' \<mapsto> example_eval x ''include'']
          [example_paper (u ''a'') 0])
      = Inr \<lparr> unique_papers =
               [attach [u ''a'' \<mapsto> example_eval x ''include''] (u ''a'')
                  (example_paper (u ''a'') 0)],
             included_papers =
               [attach [u ''a'' \<mapsto> example_eval x ''include''] (u ''a'')
                  (example_paper (u ''a'') 0)],
             excluded_count = 0 \<rparr>"
    by (simp add: compose_def k sort_reverse_def py_sort_def inc Let_def)
  have l1: "title_text 1
       (attach [u ''a'' \<mapsto> example_eval (Fin 4.2) ''include''] (u ''a'')
          (example_paper (u ''a'') 0))
     = u ''<a name='' @ sq @ u ''paper1'' @ sq @ u ''/>'' @ star @ u '' <b>HIGHLY RATED: a</b>''"
    by (simp only: t)
       (simp add: title_text_def title_str_def example_paper_sel str_nat_digits Let_def
          fge_def u_def)
  have l2: "title_text 1
       (attach [u ''a'' \<mapsto> example_eval (Fin 3.7) ''include''] (u ''a'')
          (example_paper (u ''a'') 0))
     = u ''<a name='' @ sq @ u ''paper1'' @ sq @ u ''/><b>1. a</b>''"
    by (simp only: t)
       (simp add: title_text_def title_str_def example_paper_sel str_nat_digits Let_def
          fge_def u_def)
  from c[of "Fin 4.2"] l1 c[of "Fin 3.7"] l2 show ?thesis by (intro conjI)
qed

text \<open>
  Claim C9, amended. For every included paper, with rank \<open>r\<close>: the entry of the
  table of contents carries two stars when \<open>r \<ge> 4.5\<close>, one star when \<open>r \<ge> 4.0\<close> and
  no marker otherwise; the title line of the bibliography carries the same marker,
  followed by \<^verbatim>\<open>EXCEPTIONAL\<close> when \<open>r \<ge> 4.5\<close>, by \<^verbatim>\<open>HIGHLY RATED\<close> when
  \<open>r \<ge> 4.0\<close>, and by the number of the entry otherwise. When the ledger holds an
  evaluation of the paper, the rank is its composite score. The label of the four
  buckets, \<^verbatim>\<open>EXCEPTIONAL\<close> from 4.5, \<^verbatim>\<open>EXCELLENT\<close> from 4.0, \<^verbatim>\<open>GOOD\<close> from 3.5
  and \<^verbatim>\<open>ACCEPTABLE\<close> below, stands in the critic paragraph of a paper that has an
  evaluation, chosen by the composite score of that evaluation. An included paper
  has a title that is a string.
\<close>

theorem report_markers_and_labels:
  assumes "snd (compose lib L ps) = Inr c" and "p \<in> set (included_papers c)"
  shows "\<exists>r t. critic_rank p = Some r \<and> title p = Some t
    \<and> toc_entry lib i p
        = Inr (u ''<a href='' @ sq @ u ''#paper'' @ str_nat i @ sq @ u '' color='' @ sq
          @ u ''black'' @ sq @ u ''>'' @ str_nat i @ u ''. '' @ star_marker r @ u ''<b>''
          @ replace (u '']'') [] (replace (u ''['') [] (take 80 t)) @ u ''...</b></a>''
          @ (if critic_evaluation p \<noteq> None
             then u '' <font color='' @ sq
                  @ (if fge r (Fin 4.0) then u ''darkgreen'' else u ''darkgrey'')
                  @ sq @ u ''>['' @ fmt_1f lib r @ u '']</font>''
             else []))
    \<and> title_text i p
        = u ''<a name='' @ sq @ u ''paper'' @ str_nat i @ sq @ u ''/>'' @ star_marker r
          @ (if fge r (Fin 4.5) then u ''<b>EXCEPTIONAL: ''
             else if fge r (Fin 4.0) then u ''<b>HIGHLY RATED: ''
             else u ''<b>'' @ str_nat i @ u ''. '')
          @ t @ u ''</b>''
    \<and> (\<forall>e. L (key_of lib p) = Some e \<longrightarrow>
           critic_evaluation p = Some e \<and> r = overall_score e)
    \<and> (\<forall>e t. critic_evaluation p = Some e \<longrightarrow> eval_text lib e = Inr t \<longrightarrow>
          (\<exists>rest. t = u ''<b><font color='' @ sq @ fst (score_label (overall_score e)) @ sq
             @ u ''>'' @ bullet @ u '' Critic Assessment [''
             @ snd (score_label (overall_score e)) @ u '': '' @ rest)
          \<and> snd (score_label (overall_score e))
              = (if fge (overall_score e) (Fin 4.5) then u ''EXCEPTIONAL''
                 else if fge (overall_score e) (Fin 4.0) then u ''EXCELLENT''
                 else if fge (overall_score e) (Fin 3.5) then u ''GOOD''
                 else u ''ACCEPTABLE''))"
proof -
  from included_is_attached[OF assms] obtain q where
    q: "p = attach L (key_of lib q) q" and tq: "title q \<noteq> None" by blast
  from tq obtain t where "title q = Some t" by blast
  with q have t: "title p = Some t" by (simp add: attach_title)
  from attach_rank_default[of L "key_of lib q" q] obtain r where
    "critic_rank (attach L (key_of lib q) q) = Some r"
    "critic_evaluation (attach L (key_of lib q) q) = None \<longrightarrow> r = Fin 3.0"
    by (elim exE conjE)
  with q have r: "critic_rank p = Some r" and noev: "critic_evaluation p = None \<longrightarrow> r = Fin 3.0"
    by simp_all
  have toc: "toc_entry lib i p
        = Inr (u ''<a href='' @ sq @ u ''#paper'' @ str_nat i @ sq @ u '' color='' @ sq
          @ u ''black'' @ sq @ u ''>'' @ str_nat i @ u ''. '' @ star_marker r @ u ''<b>''
          @ replace (u '']'') [] (replace (u ''['') [] (take 80 t)) @ u ''...</b></a>''
          @ (if critic_evaluation p \<noteq> None
             then u '' <font color='' @ sq
                  @ (if fge r (Fin 4.0) then u ''darkgreen'' else u ''darkgrey'')
                  @ sq @ u ''>['' @ fmt_1f lib r @ u '']</font>''
             else []))"
    using fge_45_40[of r] by (auto simp: toc_entry_def r t star_marker_def Let_def)
  have ttl: "title_text i p
        = u ''<a name='' @ sq @ u ''paper'' @ str_nat i @ sq @ u ''/>'' @ star_marker r
          @ (if fge r (Fin 4.5) then u ''<b>EXCEPTIONAL: ''
             else if fge r (Fin 4.0) then u ''<b>HIGHLY RATED: ''
             else u ''<b>'' @ str_nat i @ u ''. '')
          @ t @ u ''</b>''"
    using noev
    by (cases "critic_evaluation p")
      (auto simp: title_text_def title_str_def r t star_marker_def Let_def label_space
         not_fge_3 dest: fge_45_40)
  have found: "\<forall>e. L (key_of lib p) = Some e \<longrightarrow>
           critic_evaluation p = Some e \<and> r = overall_score e"
    using attach_found[of L "key_of lib q" _ q] q r by (auto simp: key_of_attach)
  have lab: "\<forall>e t. critic_evaluation p = Some e \<longrightarrow> eval_text lib e = Inr t \<longrightarrow>
          (\<exists>rest. t = u ''<b><font color='' @ sq @ fst (score_label (overall_score e)) @ sq
             @ u ''>'' @ bullet @ u '' Critic Assessment [''
             @ snd (score_label (overall_score e)) @ u '': '' @ rest)
          \<and> snd (score_label (overall_score e))
              = (if fge (overall_score e) (Fin 4.5) then u ''EXCEPTIONAL''
                 else if fge (overall_score e) (Fin 4.0) then u ''EXCELLENT''
                 else if fge (overall_score e) (Fin 3.5) then u ''GOOD''
                 else u ''ACCEPTABLE'')"
  proof (intro allI impI conjI)
    fix e t
    assume "eval_text lib e = Inr t"
    then show "\<exists>rest. t = u ''<b><font color='' @ sq @ fst (score_label (overall_score e)) @ sq
             @ u ''>'' @ bullet @ u '' Critic Assessment [''
             @ snd (score_label (overall_score e)) @ u '': '' @ rest"
      unfolding eval_text_def and_then_def Let_def
      by (auto split: sum.splits if_splits)
  next
    fix e
    show "snd (score_label (overall_score e))
              = (if fge (overall_score e) (Fin 4.5) then u ''EXCEPTIONAL''
                 else if fge (overall_score e) (Fin 4.0) then u ''EXCELLENT''
                 else if fge (overall_score e) (Fin 3.5) then u ''GOOD''
                 else u ''ACCEPTABLE'')"
      by (simp add: score_label_def)
  qed
  from r t toc ttl found lab show ?thesis by blast
qed

theorem report_markers_and_labels_witness:
  "title_text 1 (attach example_ledger (u ''a'') (example_paper (u ''a'') 0))
   = u ''<a name='' @ sq @ u ''paper1'' @ sq @ u ''/>'' @ star @ star
     @ u '' <b>EXCEPTIONAL: a</b>''"
proof -
  let ?p = "attach example_ledger (u ''a'') (example_paper (u ''a'') 0)"
  let ?c = "\<lparr> unique_papers =
              [attach example_ledger (u ''a'') (example_paper (u ''a'') 0),
               attach example_ledger (u ''b'') (example_paper (u ''B '') 9),
               attach example_ledger (u ''c'') (example_paper (u ''c'') 7)],
            included_papers =
              [attach example_ledger (u ''a'') (example_paper (u ''a'') 0),
               attach example_ledger (u ''c'') (example_paper (u ''c'') 7)],
            excluded_count = 1 \<rparr>"
  have c: "snd (compose example_lib example_ledger
      [example_paper (u ''c'') 7, example_paper (u ''B '') 9, example_paper (u ''a'') 0])
      = Inr ?c"
    by (simp only: example_compose snd_conv)
  have m: "?p \<in> set (included_papers ?c)" by simp
  have rk: "critic_rank ?p = Some (Fin 4.8)"
    by (simp add: example_attach)
  have tt: "title ?p = Some (u ''a'')"
    by (simp add: attach_title example_paper_sel)
  from report_markers_and_labels[OF c m, of 1] obtain r t where
    r: "critic_rank ?p = Some r" and t: "title ?p = Some t"
    and l: "title_text 1 ?p
        = u ''<a name='' @ sq @ u ''paper'' @ str_nat 1 @ sq @ u ''/>'' @ star_marker r
          @ (if fge r (Fin 4.5) then u ''<b>EXCEPTIONAL: ''
             else if fge r (Fin 4.0) then u ''<b>HIGHLY RATED: ''
             else u ''<b>'' @ str_nat 1 @ u ''. '')
          @ t @ u ''</b>''"
    by (elim exE conjE)
  from r rk have r': "r = Fin 4.8" by simp
  from t tt have t': "t = u ''a''" by simp
  show ?thesis
    unfolding l r' t'
    by (simp add: star_marker_def fge_def less_eq_prod_def str_nat_digits) (simp add: u_def)
qed

section \<open>Cleaning of abstracts\<close>

lemma replace_single:
  "replace [a] new s = concat (map (\<lambda>x. if x = a then new else [x]) s)"
  by (induction s) auto

lemma concat_map_concat_map:
  "concat (map h (concat (map f s))) = concat (map (\<lambda>x. concat (map h (f x))) s)"
  by (induction s) simp_all

lemma u_single: "u ''<'' = [60]" "u ''>'' = [62]" "u ''&'' = [38]"
  by (simp_all add: u_def)

lemma escape_chars: "escape s = concat (map esc_char s)"
  unfolding escape_def u_single replace_single concat_map_concat_map
  by (rule arg_cong[where f = concat], rule map_cong) (auto simp: esc_char_def u_def)

lemma escaped_esc_char: "escaped (esc_char c @ rest) = escaped rest"
  by (simp add: esc_char_def u_def)

lemma escape_escaped: "escaped (escape s)"
  unfolding escape_chars by (induction s) (simp_all add: escaped_esc_char)

lemma escaped_placeholder: "escaped (u ''No abstract available.'')"
  by (simp add: u_def)

lemma clean_text_escaped: "escaped (clean_text get_text nfkd t)"
  by (simp add: clean_text_def escape_escaped escaped_placeholder split: option.splits)

lemma replace_empty_iff: "old \<noteq> [] \<Longrightarrow> new \<noteq> [] \<Longrightarrow> replace old new s = [] \<longleftrightarrow> s = []"
  by (cases s) simp_all

lemma escape_empty_iff: "escape s = [] \<longleftrightarrow> s = []"
  unfolding escape_chars by (cases s) (simp_all add: esc_char_def u_def)

lemma fold_replace_empty_iff:
  "\<forall>(old, new) \<in> set rs. old \<noteq> [] \<and> new \<noteq> [] \<Longrightarrow>
   fold (\<lambda>(old, new) s. replace old new s) rs s = [] \<longleftrightarrow> s = []"
  by (induction rs arbitrary: s) (auto simp: replace_empty_iff)

lemma replacements_nonempty: "\<forall>(old, new) \<in> set replacements. old \<noteq> [] \<and> new \<noteq> []"
  by (simp add: replacements_def u_def)

lemma clean_text_empty_iff:
  "clean_text get_text nfkd t = [] \<longleftrightarrow> (\<exists>s. t = Some s \<and> s \<noteq> [] \<and> nfkd (get_text s) = [])"
  by (cases t)
     (simp_all add: clean_text_def escape_empty_iff u_eq_Nil
        fold_replace_empty_iff[OF replacements_nonempty])

text \<open>
  Claim C8, as stated, fails: the text \<^verbatim>\<open><br/>\<close> is not empty and has visible
  characters, nothing of it is left once the markup is stripped, and
  \<^verbatim>\<open>clean_text\<close> returns the empty string for it, not the placeholder.
\<close>

theorem clean_text_markup_only_counterexample:
  "60 \<in> set (u ''<br/>'') \<and> \<not> isspace 60
   \<and> clean_text (drop_tags False) id (Some (u ''<br/>'')) = []"
  by (simp add: clean_text_empty_iff isspace_def u_def)

text \<open>
  Claim C8, amended. Whatever the two library calls return, the result of
  \<^verbatim>\<open>clean_text\<close> has no angle bracket and no ampersand outside the entities
  \<^verbatim>\<open>&amp;\<close>, \<^verbatim>\<open>&lt;\<close> and \<^verbatim>\<open>&gt;\<close>; on a missing or empty text it is the
  placeholder; on any other text it is empty exactly when nothing is left after
  the markup is stripped and the text normalized.
\<close>

theorem clean_text_escaped_or_placeholder:
  "escaped (clean_text get_text nfkd t)
   \<and> clean_text get_text nfkd None = u ''No abstract available.''
   \<and> clean_text get_text nfkd (Some []) = u ''No abstract available.''
   \<and> (s \<noteq> [] \<longrightarrow>
        (clean_text get_text nfkd (Some s) = [] \<longleftrightarrow> nfkd (get_text s) = []))"
proof (intro conjI impI)
  show "escaped (clean_text get_text nfkd t)" by (rule clean_text_escaped)
  show "clean_text get_text nfkd None = u ''No abstract available.''"
    by (simp add: clean_text_def)
  show "clean_text get_text nfkd (Some []) = u ''No abstract available.''"
    by (simp add: clean_text_def)
  assume "s \<noteq> []"
  then show "clean_text get_text nfkd (Some s) = [] \<longleftrightarrow> nfkd (get_text s) = []"
    by (simp add: clean_text_empty_iff)
qed

theorem clean_text_escaped_or_placeholder_witness:
  "clean_text (drop_tags False) id (Some (u ''<i>R&D</i>'')) \<noteq> []
   \<and> escaped (clean_text (drop_tags False) id (Some (u ''<i>R&D</i>'')))"
proof -
  have ne: "u ''<i>R&D</i>'' \<noteq> []" by (simp add: u_def)
  have left: "id (drop_tags False (u ''<i>R&D</i>'')) \<noteq> []" by (simp add: u_def)
  from clean_text_escaped_or_placeholder
         [of "drop_tags False" id "Some (u ''<i>R&D</i>'')" "u ''<i>R&D</i>''"] ne left
  show ?thesis by blast
qed

end
